theory Spec2Isabelle
  imports Complex_Main
begin

section \<open>Values of the Python program\<close>

text \<open>
  A decoded JSON document, as \<open>response.json()\<close> returns it: \<open>None\<close>, a bool, a
  number, a string, a list or a dict. Python's \<open>None\<close> is \<open>JNull\<close>. Numbers are
  rationals (every finite float and every int is one); the non-standard literals
  \<open>NaN\<close> and \<open>Infinity\<close> are not represented. A dict is an association list whose
  lookup is \<open>map_of\<close>. Strings are lists of 8-bit characters.
\<close>

datatype json =
    JNull
  | JBool bool
  | JNum rat
  | JStr string
  | JArr "json list"
  | JObj "(string \<times> json) list"

text \<open>The exceptions that the modelled calls can raise.\<close>

datatype exn =
    ConnectionError
  | ReadTimeout
  | InvalidURL
  | JSONDecodeError
  | AttributeError
  | TypeError
  | ValueError
  | OverflowError
  | GaiError

text \<open>
  Python's \<open>==\<close> on decoded JSON values: \<open>True == 1\<close> and \<open>False == 0\<close> hold,
  lists are compared element by element, dicts key by key whatever their order.
\<close>

function (sequential) py_eq :: "json \<Rightarrow> json \<Rightarrow> bool" where
  "py_eq JNull JNull = True"
| "py_eq (JBool a) (JBool b) = (a = b)"
| "py_eq (JBool a) (JNum n) = (of_bool a = n)"
| "py_eq (JNum n) (JBool a) = (n = of_bool a)"
| "py_eq (JNum a) (JNum b) = (a = b)"
| "py_eq (JStr a) (JStr b) = (a = b)"
| "py_eq (JArr xs) (JArr ys) = list_all2 py_eq xs ys"
| "py_eq (JObj xs) (JObj ys) =
     (set (map fst xs) = set (map fst ys) \<and>
      list_all (\<lambda>k. case map_of xs k of None \<Rightarrow> False
                     | Some v \<Rightarrow> (case map_of ys k of None \<Rightarrow> False
                                  | Some w \<Rightarrow> py_eq v w)) (map fst xs))"
| "py_eq _ _ = False"
  by pat_completeness auto
termination
proof (relation "measure (\<lambda>(a, b). size b)")
  show "wf (measure (\<lambda>(a, b). size b))"
    by simp
next
  fix xs ys :: "json list" and z yb
  assume "z \<in> set xs" and "yb \<in> set ys"
  then show "((z, yb), JArr xs, JArr ys) \<in> measure (\<lambda>(a, b). size b)"
    by (induction ys) auto
next
  fix xs ys :: "(string \<times> json) list" and x x2 x2a
  assume "map_of ys x = Some x2a"
  then have "size x2a < Suc (size_list (size_prod (\<lambda>x. 0) size) ys)"
  proof (induction ys)
    case Nil
    then show ?case by simp
  next
    case (Cons p ps)
    then show ?case by (cases p) (auto split: if_splits)
  qed
  then show "((x2, x2a), JObj xs, JObj ys) \<in> measure (\<lambda>(a, b). size b)"
    by simp
qed

text \<open>
  \<open>d.get(key, default)\<close>. Only a dict has the method: on any other decoded value
  the attribute lookup raises \<open>AttributeError\<close>.
\<close>

definition dict_get :: "(string \<times> json) list \<Rightarrow> string \<Rightarrow> json \<Rightarrow> json" where
  "dict_get d k dflt = (case map_of d k of None \<Rightarrow> dflt | Some v \<Rightarrow> v)"

definition py_get :: "json \<Rightarrow> string \<Rightarrow> json \<Rightarrow> exn + json" where
  "py_get j k dflt = (case j of JObj d \<Rightarrow> Inr (dict_get d k dflt) | _ \<Rightarrow> Inl AttributeError)"

subsection \<open>\<open>int(s, 16)\<close> and \<open>hex(n)\<close>\<close>

text \<open>
  \<open>int(s, 16)\<close> on a string: surrounding whitespace is dropped, then an optional
  sign, an optional \<open>0x\<close> or \<open>0X\<close> prefix (which one underscore may follow), then hex
  digits, single underscores allowed between digits only. Anything else is a
  \<open>ValueError\<close> (\<open>None\<close> here). Among 8-bit characters the whitespace is
  tab, newline, vertical tab, form feed, return, space, U+0085 and U+00A0.
\<close>

definition is_space :: "char \<Rightarrow> bool" where
  "is_space c = (of_char c \<in> {9, 10, 11, 12, 13, 32, 133, 160 :: nat})"

definition strip :: "string \<Rightarrow> string" where
  "strip s = rev (dropWhile is_space (rev (dropWhile is_space s)))"

definition hex_val :: "char \<Rightarrow> int option" where
  "hex_val c =
     (let n = (of_char c :: nat) in
      if 48 \<le> n \<and> n \<le> 57 then Some (int n - 48)
      else if 97 \<le> n \<and> n \<le> 102 then Some (int n - 87)
      else if 65 \<le> n \<and> n \<le> 70 then Some (int n - 55)
      else None)"

fun parse_digits :: "string \<Rightarrow> int \<Rightarrow> int option" where
  "parse_digits [] acc = Some acc"
| "parse_digits (c # cs) acc =
     (if c = CHR ''_'' then
        (case cs of
           [] \<Rightarrow> None
         | d # ds \<Rightarrow> (case hex_val d of None \<Rightarrow> None
                      | Some v \<Rightarrow> parse_digits ds (16 * acc + v)))
      else (case hex_val c of None \<Rightarrow> None
            | Some v \<Rightarrow> parse_digits cs (16 * acc + v)))"

definition parse_hex :: "string \<Rightarrow> int option" where
  "parse_hex s =
     (case s of
        [] \<Rightarrow> None
      | c # cs \<Rightarrow> (case hex_val c of None \<Rightarrow> None | Some v \<Rightarrow> parse_digits cs v))"

definition drop_prefix :: "string \<Rightarrow> string" where
  "drop_prefix s =
     (case s of
        z # x # r \<Rightarrow>
          if z = CHR ''0'' \<and> (x = CHR ''x'' \<or> x = CHR ''X'') then
            (case r of u # r' \<Rightarrow> if u = CHR ''_'' then r' else r | [] \<Rightarrow> r)
          else s
      | _ \<Rightarrow> s)"

definition py_int16 :: "string \<Rightarrow> int option" where
  "py_int16 s =
     (case strip s of
        [] \<Rightarrow> None
      | c # cs \<Rightarrow>
          if c = CHR ''-'' then map_option uminus (parse_hex (drop_prefix cs))
          else if c = CHR ''+'' then parse_hex (drop_prefix cs)
          else parse_hex (drop_prefix (c # cs)))"

text \<open>\<open>int(result, 16)\<close> on a decoded value: a non-string raises \<open>TypeError\<close>.\<close>

definition py_int :: "json \<Rightarrow> exn + int" where
  "py_int j =
     (case j of
        JStr s \<Rightarrow> (case py_int16 s of None \<Rightarrow> Inl ValueError | Some n \<Rightarrow> Inr n)
      | _ \<Rightarrow> Inl TypeError)"

definition hex_digit :: "nat \<Rightarrow> char" where
  "hex_digit d = (if d < 10 then char_of (48 + d) else char_of (87 + d))"

fun hex_nat :: "nat \<Rightarrow> string" where
  "hex_nat n = (if n < 16 then [hex_digit n] else hex_nat (n div 16) @ [hex_digit (n mod 16)])"

declare hex_nat.simps [simp del]

definition py_hex :: "int \<Rightarrow> string" where
  "py_hex n = (if n < 0 then ''-0x'' @ hex_nat (nat (- n)) else ''0x'' @ hex_nat (nat n))"

section \<open>The world outside the program\<close>

text \<open>
  The JSON-RPC envelope that \<open>requests.post(url, json=payload)\<close> sends.
\<close>

record payload =
  jsonrpc :: string
  rpc_method :: string
  params :: "json list"
  request_id :: int

text \<open>
  What a POST gives back: an exception of the transport, or a response with its
  status code and its body; \<open>None\<close> is a body that is not JSON, on which
  \<open>response.json()\<close> raises.
\<close>

datatype reply = Raises exn | Response int "json option"

datatype level = INFO | ERROR

datatype log_msg =
    Starting_the_script
  | Port_is_open int
  | Port_is_closed int
  | Error_checking_port int exn
  | Failed_to_fetch_latest
  | Hash_check_passed
  | Hash_check_failed int json json
  | Progression_passed
  | Progression_failed
  | Port_check_passed
  | Port_check_failed
  | Script_completed bool bool bool

datatype event =
    Time
  | Sleep rat
  | Post string payload
  | Socket nat
  | Settimeout nat rat
  | Connect_ex nat "string option" int
  | Close nat
  | Log level log_msg

text \<open>
  The program runs against a world. Its first four fields are the environment and
  never change: the reading of the \<open>k\<close>-th call of \<open>time.time()\<close>, the reply to the
  \<open>k\<close>-th POST, what \<open>urlparse(url).hostname\<close> gives, and the outcome of
  \<open>connect_ex\<close> on the \<open>k\<close>-th socket (an errno, 0 for success, or an exception).
  The others are state: how many clock readings, POSTs and sockets there have been,
  the sockets that are open, and every effect so far, in order.
\<close>

record world =
  clock :: "nat \<Rightarrow> rat"
  net :: "nat \<Rightarrow> string \<Rightarrow> payload \<Rightarrow> reply"
  urlparse_hostname :: "string \<Rightarrow> exn + string option"
  connect :: "nat \<Rightarrow> string \<Rightarrow> int \<Rightarrow> exn + int"
  ticks :: nat
  posts :: nat
  socks :: nat
  open_socks :: "nat list"
  trace :: "event list"

definition time_time :: "world \<Rightarrow> rat \<times> world" where
  "time_time w = (clock w (ticks w), w\<lparr>ticks := Suc (ticks w), trace := trace w @ [Time]\<rparr>)"

definition time_sleep :: "rat \<Rightarrow> world \<Rightarrow> world" where
  "time_sleep d w = w\<lparr>trace := trace w @ [Sleep d]\<rparr>"

definition requests_post :: "string \<Rightarrow> payload \<Rightarrow> world \<Rightarrow> reply \<times> world" where
  "requests_post url p w =
     (net w (posts w) url p, w\<lparr>posts := Suc (posts w), trace := trace w @ [Post url p]\<rparr>)"

definition logging :: "level \<Rightarrow> log_msg \<Rightarrow> world \<Rightarrow> world" where
  "logging l m w = w\<lparr>trace := trace w @ [Log l m]\<rparr>"

text \<open>
  \<open>socket.socket(...)\<close> gives the next socket, open, and \<open>settimeout\<close> records
  the deadline. Both stand before the \<open>try\<close> block of the probe and are taken not
  to fail.
\<close>

definition socket_socket :: "world \<Rightarrow> nat \<times> world" where
  "socket_socket w =
     (socks w, w\<lparr>socks := Suc (socks w), open_socks := socks w # open_socks w,
                 trace := trace w @ [Socket (socks w)]\<rparr>)"

definition settimeout :: "nat \<Rightarrow> rat \<Rightarrow> world \<Rightarrow> world" where
  "settimeout sock t w = w\<lparr>trace := trace w @ [Settimeout sock t]\<rparr>"

text \<open>
  \<open>sock.connect_ex((host, port))\<close>: a host that is \<open>None\<close> is a \<open>TypeError\<close>;
  otherwise the environment decides.
\<close>

definition connect_ex :: "nat \<Rightarrow> string option \<Rightarrow> int \<Rightarrow> world \<Rightarrow> (exn + int) \<times> world" where
  "connect_ex sock host port w =
     ((case host of None \<Rightarrow> Inl TypeError | Some h \<Rightarrow> connect w sock h port),
      w\<lparr>trace := trace w @ [Connect_ex sock host port]\<rparr>)"

definition close :: "nat \<Rightarrow> world \<Rightarrow> world" where
  "close sock w = w\<lparr>open_socks := removeAll sock (open_socks w), trace := trace w @ [Close sock]\<rparr>"

section \<open>The program\<close>

subsection \<open>RPC client\<close>

definition block_number_payload :: payload where
  "block_number_payload =
     \<lparr>jsonrpc = ''2.0'', rpc_method = ''eth_blockNumber'', params = [], request_id = 1\<rparr>"

definition fetch_latest_block_number :: "string \<Rightarrow> world \<Rightarrow> (exn + int option) \<times> world" where
  "fetch_latest_block_number rpc_url w =
     (case requests_post rpc_url block_number_payload w of
        (Raises e, w1) \<Rightarrow> (Inl e, w1)
      | (Response status_code body, w1) \<Rightarrow>
          if status_code = 200 then
            (case body of
               None \<Rightarrow> (Inl JSONDecodeError, w1)
             | Some j \<Rightarrow>
                 (case py_get j ''result'' JNull of
                    Inl e \<Rightarrow> (Inl e, w1)
                  | Inr result \<Rightarrow>
                      if result \<noteq> JNull then
                        (case py_int result of
                           Inl e \<Rightarrow> (Inl e, w1)
                         | Inr n \<Rightarrow> (Inr (Some n), w1))
                      else (Inr None, w1)))
          else (Inr None, w1))"

definition block_details_payload :: "int \<Rightarrow> payload" where
  "block_details_payload block_number =
     \<lparr>jsonrpc = ''2.0'', rpc_method = ''eth_getBlockByNumber'',
      params = [JStr (py_hex block_number), JBool False], request_id = 1\<rparr>"

text \<open>
  The block number is whatever the caller holds, \<open>None\<close> included; \<open>hex(None)\<close>
  raises \<open>TypeError\<close> while the payload is built, before anything is sent.
\<close>

definition fetch_block_details :: "string \<Rightarrow> int option \<Rightarrow> world \<Rightarrow> (exn + json) \<times> world" where
  "fetch_block_details rpc_url block_number w =
     (case block_number of
        None \<Rightarrow> (Inl TypeError, w)
      | Some n \<Rightarrow>
          (case requests_post rpc_url (block_details_payload n) w of
             (Raises e, w1) \<Rightarrow> (Inl e, w1)
           | (Response status_code body, w1) \<Rightarrow>
               if status_code = 200 then
                 (case body of
                    None \<Rightarrow> (Inl JSONDecodeError, w1)
                  | Some j \<Rightarrow>
                      (case py_get j ''result'' (JObj []) of
                         Inl e \<Rightarrow> (Inl e, w1)
                       | Inr result \<Rightarrow> (Inr result, w1)))
               else (Inr (JObj []), w1)))"

subsection \<open>Port prober\<close>

definition get_hostname :: "string \<Rightarrow> world \<Rightarrow> exn + string option" where
  "get_hostname url w = urlparse_hostname w url"

text \<open>
  The body of the \<open>try\<close> block of \<open>is_port_open\<close>, on the socket already made.
\<close>

definition is_port_open_try :: "nat \<Rightarrow> string \<Rightarrow> int \<Rightarrow> world \<Rightarrow> (exn + bool) \<times> world" where
  "is_port_open_try sock host port w =
     (case get_hostname host w of
        Inl e \<Rightarrow> (Inl e, w)
      | Inr host' \<Rightarrow>
          (case connect_ex sock host' port w of
             (Inl e, w1) \<Rightarrow> (Inl e, w1)
           | (Inr result, w1) \<Rightarrow> (Inr (result = 0), close sock w1)))"

definition is_port_open :: "string \<Rightarrow> int \<Rightarrow> world \<Rightarrow> (exn + bool) \<times> world" where
  "is_port_open host port w =
     (case socket_socket w of
        (sock, w1) \<Rightarrow>
          (case is_port_open_try sock host port (settimeout sock 1 w1) of
             (Inl e, w2) \<Rightarrow> (Inr False, logging ERROR (Error_checking_port port e) w2)
           | (Inr b, w2) \<Rightarrow> (Inr b, w2)))"

subsection \<open>Block progression poller\<close>

definition advanced :: "int option \<Rightarrow> int \<Rightarrow> bool" where
  "advanced current_block_number initial_block_number =
     (case current_block_number of None \<Rightarrow> False | Some c \<Rightarrow> c > initial_block_number)"

text \<open>
  The \<open>while\<close> loop of \<open>check_block_progression\<close>. Nothing bounds the readings of
  the clock, so the loop need not end: not returning is \<open>None\<close>.
\<close>

partial_function (option) polling ::
  "string \<Rightarrow> rat \<Rightarrow> rat \<Rightarrow> int \<Rightarrow> world \<Rightarrow> ((exn + bool) \<times> world) option" where
  "polling rpc_url timeout start_time initial_block_number w =
     (case time_time w of
        (now, w1) \<Rightarrow>
          if now - start_time < timeout then
            (case fetch_latest_block_number rpc_url w1 of
               (Inl e, w2) \<Rightarrow> Some (Inl e, w2)
             | (Inr current_block_number, w2) \<Rightarrow>
                 if advanced current_block_number initial_block_number then Some (Inr True, w2)
                 else polling rpc_url timeout start_time initial_block_number (time_sleep 5 w2))
          else Some (Inr False, w1))"

declare polling.simps [code]

definition check_block_progression ::
  "string \<Rightarrow> rat \<Rightarrow> world \<Rightarrow> ((exn + bool) \<times> world) option" where
  "check_block_progression rpc_url timeout w =
     (case time_time w of
        (start_time, w1) \<Rightarrow>
          (case fetch_latest_block_number rpc_url w1 of
             (Inl e, w2) \<Rightarrow> Some (Inl e, w2)
           | (Inr None, w2) \<Rightarrow> Some (Inr False, w2)
           | (Inr (Some initial_block_number), w2) \<Rightarrow>
               polling rpc_url timeout start_time initial_block_number w2))"

subsection \<open>Check aggregator\<close>

text \<open>
  The dict comprehension \<open>{port: is_port_open(rpc_url, port) for port in ports}\<close>,
  one probe after the other, as an association list in the order of the ports.
\<close>

fun port_scan :: "string \<Rightarrow> int list \<Rightarrow> world \<Rightarrow> (exn + (int \<times> bool) list) \<times> world" where
  "port_scan rpc_url [] w = (Inr [], w)"
| "port_scan rpc_url (port # ports) w =
     (case is_port_open rpc_url port w of
        (Inl e, w1) \<Rightarrow> (Inl e, w1)
      | (Inr status, w1) \<Rightarrow>
          (case port_scan rpc_url ports w1 of
             (Inl e, w2) \<Rightarrow> (Inl e, w2)
           | (Inr rest, w2) \<Rightarrow> (Inr ((port, status) # rest), w2)))"

fun log_port_status :: "(int \<times> bool) list \<Rightarrow> world \<Rightarrow> world" where
  "log_port_status [] w = w"
| "log_port_status ((port, status) # rest) w =
     log_port_status rest
       (if status then logging INFO (Port_is_open port) w
        else logging ERROR (Port_is_closed port) w)"

text \<open>
  The comparison both aggregators make on the two block details:
  \<open>reference_block_details.get('hash') == target_block_details.get('hash')\<close>.
  It gives the two identifiers and the verdict; \<open>.get\<close> raises on details that are
  not a dict.
\<close>

definition block_hash_check :: "json \<Rightarrow> json \<Rightarrow> exn + json \<times> json \<times> bool" where
  "block_hash_check reference_block_details target_block_details =
     (case py_get reference_block_details ''hash'' JNull of
        Inl e \<Rightarrow> Inl e
      | Inr reference_block_hash \<Rightarrow>
          (case py_get target_block_details ''hash'' JNull of
             Inl e \<Rightarrow> Inl e
           | Inr target_block_hash \<Rightarrow>
               Inr (reference_block_hash, target_block_hash,
                    py_eq reference_block_hash target_block_hash)))"

definition report_main :: "int \<Rightarrow> json \<Rightarrow> json \<Rightarrow> bool \<Rightarrow> bool \<Rightarrow> bool \<Rightarrow> world \<Rightarrow> world" where
  "report_main latest_block_number reference_block_hash target_block_hash
       hash_check_pass block_progression_pass port_check_pass w =
     (let w1 = (if hash_check_pass then logging INFO Hash_check_passed w
                else logging ERROR
                       (Hash_check_failed latest_block_number target_block_hash
                          reference_block_hash) w);
          w2 = (if block_progression_pass then logging INFO Progression_passed w1
                else logging ERROR Progression_failed w1);
          w3 = (if port_check_pass then logging INFO Port_check_passed w2
                else logging ERROR Port_check_failed w2)
      in logging INFO
           (Script_completed hash_check_pass block_progression_pass port_check_pass) w3)"

definition main :: "string \<Rightarrow> string \<Rightarrow> rat \<Rightarrow> world \<Rightarrow> ((exn + unit) \<times> world) option" where
  "main rpc_url reference_url timeout w =
     (case port_scan rpc_url [30303, 9003, 30304] (logging INFO Starting_the_script w) of
        (Inl e, w1) \<Rightarrow> Some (Inl e, w1)
      | (Inr port_status, w1) \<Rightarrow>
          (case fetch_latest_block_number reference_url (log_port_status port_status w1) of
             (Inl e, w2) \<Rightarrow> Some (Inl e, w2)
           | (Inr None, w2) \<Rightarrow> Some (Inr (), logging ERROR Failed_to_fetch_latest w2)
           | (Inr (Some latest_block_number), w2) \<Rightarrow>
               (case fetch_block_details reference_url (Some latest_block_number) w2 of
                  (Inl e, w3) \<Rightarrow> Some (Inl e, w3)
                | (Inr reference_block_details, w3) \<Rightarrow>
                    (case fetch_block_details rpc_url (Some latest_block_number) w3 of
                       (Inl e, w4) \<Rightarrow> Some (Inl e, w4)
                     | (Inr target_block_details, w4) \<Rightarrow>
                         (case block_hash_check reference_block_details target_block_details of
                            Inl e \<Rightarrow> Some (Inl e, w4)
                          | Inr (reference_block_hash, target_block_hash, hash_check_pass) \<Rightarrow>
                              (case check_block_progression rpc_url timeout w4 of
                                 None \<Rightarrow> None
                               | Some (Inl e, w5) \<Rightarrow> Some (Inl e, w5)
                               | Some (Inr block_progression_pass, w5) \<Rightarrow>
                                   Some (Inr (),
                                     report_main latest_block_number reference_block_hash
                                       target_block_hash hash_check_pass block_progression_pass
                                       (list_all snd port_status) w5)))))))"

record check_results =
  port_status :: "(int \<times> bool) list"
  block_hash_check_result :: bool
  block_progression :: bool

definition perform_checks ::
  "string \<Rightarrow> string \<Rightarrow> rat \<Rightarrow> world \<Rightarrow> ((exn + check_results) \<times> world) option" where
  "perform_checks rpc_url reference_url timeout w =
     (case port_scan rpc_url [30303, 9003, 30304, 8369, 18369] w of
        (Inl e, w1) \<Rightarrow> Some (Inl e, w1)
      | (Inr port_results, w1) \<Rightarrow>
          (case fetch_latest_block_number reference_url w1 of
             (Inl e, w2) \<Rightarrow> Some (Inl e, w2)
           | (Inr latest_block_number, w2) \<Rightarrow>
               (case fetch_block_details reference_url latest_block_number w2 of
                  (Inl e, w3) \<Rightarrow> Some (Inl e, w3)
                | (Inr reference_block_details, w3) \<Rightarrow>
                    (case fetch_block_details rpc_url latest_block_number w3 of
                       (Inl e, w4) \<Rightarrow> Some (Inl e, w4)
                     | (Inr target_block_details, w4) \<Rightarrow>
                         (case block_hash_check reference_block_details target_block_details of
                            Inl e \<Rightarrow> Some (Inl e, w4)
                          | Inr (reference_block_hash, target_block_hash, hash_check_pass) \<Rightarrow>
                              (case check_block_progression rpc_url timeout w4 of
                                 None \<Rightarrow> None
                               | Some (Inl e, w5) \<Rightarrow> Some (Inl e, w5)
                               | Some (Inr progressed, w5) \<Rightarrow>
                                   Some (Inr \<lparr>port_status = port_results,
                                              block_hash_check_result = hash_check_pass,
                                              block_progression = progressed\<rparr>, w5)))))))"

subsection \<open>The route \<open>/api/check\<close>\<close>

text \<open>
  The route gets the query parameter \<open>rpc_url\<close>, \<open>None\<close> when the request has
  none, and answers with a status and a JSON body: the error object, or the results
  of \<open>perform_checks\<close> with its default reference endpoint and timeout.
\<close>

datatype body = Error_body "(string \<times> string) list" | Results_body check_results

definition default_reference_url :: string where
  "default_reference_url = ''https://rpc.rollux.com''"

definition default_timeout :: rat where
  "default_timeout = 30"

definition api_check :: "string option \<Rightarrow> world \<Rightarrow> ((exn + int \<times> body) \<times> world) option" where
  "api_check rpc_url w =
     (case rpc_url of
        None \<Rightarrow> Some (Inr (400, Error_body [(''error'', ''RPC URL is required'')]), w)
      | Some u \<Rightarrow>
          if u \<noteq> [] then
            (case perform_checks u default_reference_url default_timeout w of
               None \<Rightarrow> None
             | Some (Inl e, w1) \<Rightarrow> Some (Inl e, w1)
             | Some (Inr results, w1) \<Rightarrow> Some (Inr (200, Results_body results), w1))
          else Some (Inr (400, Error_body [(''error'', ''RPC URL is required'')]), w))"

section \<open>Observations and concrete worlds\<close>

text \<open>
  The head that the \<open>k\<close>-th POST of a world reports when it is the query
  \<open>eth_blockNumber\<close> to \<open>rpc_url\<close>: an exception, \<open>None\<close> (Absent) or a number.
\<close>

definition head_at :: "world \<Rightarrow> string \<Rightarrow> nat \<Rightarrow> exn + int option" where
  "head_at w rpc_url k = fst (fetch_latest_block_number rpc_url (w\<lparr>posts := k\<rparr>))"

text \<open>A world at its start, from its environment.\<close>

definition world_of ::
  "(nat \<Rightarrow> rat) \<Rightarrow> (nat \<Rightarrow> string \<Rightarrow> payload \<Rightarrow> reply) \<Rightarrow> (string \<Rightarrow> exn + string option) \<Rightarrow>
   (nat \<Rightarrow> string \<Rightarrow> int \<Rightarrow> exn + int) \<Rightarrow> world" where
  "world_of c n h k =
     \<lparr>clock = c, net = n, urlparse_hostname = h, connect = k, ticks = 0, posts = 0,
      socks = 0, open_socks = [], trace = []\<rparr>"

definition host_of_node :: "string \<Rightarrow> exn + string option" where
  "host_of_node url = Inr (Some ''node'')"

text \<open>Every POST is refused, every connect is refused (errno 111).\<close>

definition offline :: world where
  "offline = world_of (\<lambda>k. 0) (\<lambda>k url p. Raises ConnectionError) host_of_node (\<lambda>k h p. Inr 111)"

text \<open>Every POST is answered with status 200 and a body that is not JSON.\<close>

definition garbled :: world where
  "garbled = world_of (\<lambda>k. 0) (\<lambda>k url p. Response 200 None) host_of_node (\<lambda>k h p. Inr 111)"

text \<open>Every POST is answered with status 503.\<close>

definition unavailable :: world where
  "unavailable =
     world_of (\<lambda>k. 0) (\<lambda>k url p. Response 503 None) host_of_node (\<lambda>k h p. Inr 111)"

text \<open>Every POST is answered with status 200 and the empty JSON object.\<close>

definition resultless :: world where
  "resultless =
     world_of (\<lambda>k. 0) (\<lambda>k url p. Response 200 (Some (JObj []))) host_of_node (\<lambda>k h p. Inr 111)"

text \<open>The name of the host does not resolve: \<open>connect_ex\<close> raises.\<close>

definition unresolvable :: world where
  "unresolvable =
     world_of (\<lambda>k. 0) (\<lambda>k url p. Raises ConnectionError) host_of_node (\<lambda>k h p. Inl GaiError)"

text \<open>
  A node that answers: \<open>eth_blockNumber\<close> gives head 1000 (\<open>0x3e8\<close>) on the first
  \<open>m\<close> POSTs of the world and head 1001 (\<open>0x3e9\<close>) after them, and
  \<open>eth_getBlockByNumber\<close> gives a block whose hash is \<open>0xabc\<close>.
\<close>

definition head_reply :: "string \<Rightarrow> reply" where
  "head_reply h =
     Response 200 (Some (JObj [(''jsonrpc'', JStr ''2.0''), (''id'', JNum 1), (''result'', JStr h)]))"

definition block_reply :: "string \<Rightarrow> reply" where
  "block_reply h =
     Response 200
       (Some (JObj [(''result'', JObj [(''number'', JStr ''0x3e8''), (''hash'', JStr h)])]))"

definition advancing_net :: "nat \<Rightarrow> nat \<Rightarrow> string \<Rightarrow> payload \<Rightarrow> reply" where
  "advancing_net m k url p =
     (if rpc_method p = ''eth_blockNumber'' then head_reply (if k < m then ''0x3e8'' else ''0x3e9'')
      else block_reply ''0xabc'')"

text \<open>
  All ports open, the clock five seconds further at each reading, and the head
  advancing at the fifth POST: in an aggregator run that is the first poll of the
  progression check.
\<close>

definition healthy :: world where
  "healthy = world_of (\<lambda>k. 5 * of_nat k) (advancing_net 4) host_of_node (\<lambda>k h p. Inr 0)"

text \<open>
  What the loop of \<open>check_block_progression\<close> started in world \<open>w\<close> observes: its
  \<open>j\<close>-th pass reads the clock for the \<open>(j+1)\<close>-th time after the start time and
  sends the \<open>(j+1)\<close>-th POST after the baseline query. The pass is inside the window
  when that reading is less than \<open>timeout\<close> after the start time; the first \<open>k\<close>
  passes are quiet when each is inside the window and its poll returns a head that
  is Absent or not above the baseline \<open>b\<close>. \<open>polled w rpc_url k\<close> is the world
  after \<open>k\<close> such passes, each a clock reading, a POST and a sleep of 5 seconds.
\<close>

definition in_window :: "world \<Rightarrow> rat \<Rightarrow> nat \<Rightarrow> bool" where
  "in_window w timeout j = (clock w (ticks w + 1 + j) - clock w (ticks w) < timeout)"

definition quiet_polls :: "world \<Rightarrow> string \<Rightarrow> rat \<Rightarrow> int \<Rightarrow> nat \<Rightarrow> bool" where
  "quiet_polls w rpc_url timeout b k =
     list_all (\<lambda>j. in_window w timeout j \<and>
                 (case head_at w rpc_url (posts w + 1 + j) of
                    Inl e \<Rightarrow> False
                  | Inr v \<Rightarrow> \<not> advanced v b)) [0..<k]"

definition polled :: "world \<Rightarrow> string \<Rightarrow> nat \<Rightarrow> world" where
  "polled w rpc_url k =
     w\<lparr>ticks := ticks w + k, posts := posts w + k,
       trace := trace w @ concat (replicate k [Time, Post rpc_url block_number_payload, Sleep 5])\<rparr>"

text \<open>
  Two nodes polled every five seconds: on the first the head advances at the third
  POST, on the second it stays at 1000 over the first thousand POSTs.
\<close>

definition lagging :: world where
  "lagging = world_of (\<lambda>k. 5 * of_nat k) (advancing_net 2) host_of_node (\<lambda>k h p. Inr 0)"

definition stalled :: world where
  "stalled = world_of (\<lambda>k. 5 * of_nat k) (advancing_net 1000) host_of_node (\<lambda>k h p. Inr 0)"

text \<open>
  The POSTs of a world so far, in the order they were sent, and the relation between
  two worlds with the same network and no POST from the one to the other.
\<close>

definition is_post :: "event \<Rightarrow> bool" where
  "is_post e = (case e of Post u p \<Rightarrow> True | _ \<Rightarrow> False)"

definition posted :: "world \<Rightarrow> event list" where
  "posted w = filter is_post (trace w)"

definition no_post :: "world \<Rightarrow> world \<Rightarrow> bool" where
  "no_post w w' = (net w' = net w \<and> posts w' = posts w \<and> posted w' = posted w)"

section \<open>Effects of the primitive calls\<close>

lemma fetch_latest_world:
  "snd (fetch_latest_block_number rpc_url w) =
     w\<lparr>posts := Suc (posts w), trace := trace w @ [Post rpc_url block_number_payload]\<rparr>"
  by (simp add: fetch_latest_block_number_def requests_post_def
      split: reply.splits option.splits sum.splits)

lemma fetch_details_world:
  "snd (fetch_block_details rpc_url (Some n) w) =
     w\<lparr>posts := Suc (posts w), trace := trace w @ [Post rpc_url (block_details_payload n)]\<rparr>"
  by (simp add: fetch_block_details_def requests_post_def
      split: reply.splits option.splits sum.splits)

lemma head_at_here: "fst (fetch_latest_block_number rpc_url w) = head_at w rpc_url (posts w)"
  by (simp add: head_at_def)

lemma head_at_env:
  "net w' = net w \<Longrightarrow> head_at w' rpc_url k = head_at w rpc_url k"
  by (simp add: head_at_def fetch_latest_block_number_def requests_post_def
      split: reply.splits option.splits sum.splits)

lemmas probe_defs = is_port_open_def is_port_open_try_def get_hostname_def socket_socket_def
  settimeout_def connect_ex_def close_def logging_def

lemmas rpc_defs = fetch_latest_block_number_def fetch_block_details_def requests_post_def
  py_get_def dict_get_def block_number_payload_def block_details_payload_def

lemma int_3e8: "py_int (JStr ''0x3e8'') = Inr 1000"
  by (simp add: py_int_def py_int16_def strip_def is_space_def drop_prefix_def parse_hex_def
      hex_val_def)

lemma int_3e9: "py_int (JStr ''0x3e9'') = Inr 1001"
  by (simp add: py_int_def py_int16_def strip_def is_space_def drop_prefix_def parse_hex_def
      hex_val_def)

lemma hex_1000: "py_hex 1000 = ''0x3e8''"
  by code_simp

lemma healthy_run:
  "map_option fst (perform_checks ''http://node'' default_reference_url default_timeout healthy) =
     Some (Inr \<lparr>port_status =
                  [(30303, True), (9003, True), (30304, True), (8369, True), (18369, True)],
                block_hash_check_result = True, block_progression = True\<rparr>)"
  by (simp add: perform_checks_def probe_defs healthy_def world_of_def host_of_node_def
      rpc_defs advancing_net_def head_reply_def block_reply_def int_3e8 int_3e9 hex_1000
      block_hash_check_def check_block_progression_def polling.simps time_time_def time_sleep_def
      advanced_def default_timeout_def)

section \<open>RPC client: what collapses to Absent and what is raised\<close>

text \<open>
  Claim C1, as stated, fails. With the connection refused the POST raises, and
  neither \<open>fetch_latest_block_number\<close> nor \<open>fetch_block_details\<close> catches it; a
  body that is not JSON makes \<open>response.json()\<close> raise in both. The caller gets
  the exception, not the Absent result.
\<close>

theorem rpc_failure_propagates:
  "fst (fetch_latest_block_number ''http://node'' offline) = Inl ConnectionError \<and>
   fst (fetch_block_details ''http://node'' (Some 1000) offline) = Inl ConnectionError \<and>
   fst (fetch_latest_block_number ''http://node'' garbled) = Inl JSONDecodeError \<and>
   fst (fetch_block_details ''http://node'' (Some 1000) garbled) = Inl JSONDecodeError"
  by (simp add: fetch_latest_block_number_def fetch_block_details_def offline_def garbled_def
      world_of_def requests_post_def)

text \<open>
  Claim C1, amended. For both RPC calls, a response whose status is not 200, and a
  200 response whose JSON object has no \<open>result\<close> field, collapse to the Absent
  result (\<open>None\<close>, or the empty object for block details) with no exception. An
  exception of the transport (connection refused, timeout) and a body that is not
  JSON are not caught: the caller gets that exception.
\<close>

theorem rpc_client_outcomes:
  "(net w (posts w) rpc_url block_number_payload = Response status_code body \<and> status_code \<noteq> 200
      \<longrightarrow> fst (fetch_latest_block_number rpc_url w) = Inr None) \<and>
   (net w (posts w) rpc_url block_number_payload = Response 200 (Some (JObj d)) \<and>
    map_of d ''result'' = None
      \<longrightarrow> fst (fetch_latest_block_number rpc_url w) = Inr None) \<and>
   (net w (posts w) rpc_url block_number_payload = Raises e
      \<longrightarrow> fst (fetch_latest_block_number rpc_url w) = Inl e) \<and>
   (net w (posts w) rpc_url block_number_payload = Response 200 None
      \<longrightarrow> fst (fetch_latest_block_number rpc_url w) = Inl JSONDecodeError) \<and>
   (net w (posts w) rpc_url (block_details_payload n) = Response status_code body \<and>
    status_code \<noteq> 200
      \<longrightarrow> fst (fetch_block_details rpc_url (Some n) w) = Inr (JObj [])) \<and>
   (net w (posts w) rpc_url (block_details_payload n) = Response 200 (Some (JObj d)) \<and>
    map_of d ''result'' = None
      \<longrightarrow> fst (fetch_block_details rpc_url (Some n) w) = Inr (JObj [])) \<and>
   (net w (posts w) rpc_url (block_details_payload n) = Raises e
      \<longrightarrow> fst (fetch_block_details rpc_url (Some n) w) = Inl e) \<and>
   (net w (posts w) rpc_url (block_details_payload n) = Response 200 None
      \<longrightarrow> fst (fetch_block_details rpc_url (Some n) w) = Inl JSONDecodeError)"
  by (simp add: fetch_latest_block_number_def fetch_block_details_def requests_post_def
      py_get_def dict_get_def)

theorem rpc_client_outcomes_witness:
  "fst (fetch_latest_block_number ''http://node'' unavailable) = Inr None \<and>
   fst (fetch_latest_block_number ''http://node'' resultless) = Inr None \<and>
   fst (fetch_latest_block_number ''http://node'' offline) = Inl ConnectionError \<and>
   fst (fetch_latest_block_number ''http://node'' garbled) = Inl JSONDecodeError \<and>
   fst (fetch_block_details ''http://node'' (Some 1000) unavailable) = Inr (JObj []) \<and>
   fst (fetch_block_details ''http://node'' (Some 1000) resultless) = Inr (JObj []) \<and>
   fst (fetch_block_details ''http://node'' (Some 1000) offline) = Inl ConnectionError \<and>
   fst (fetch_block_details ''http://node'' (Some 1000) garbled) = Inl JSONDecodeError"
  using rpc_client_outcomes [of unavailable "''http://node''" 503 None "[]" ConnectionError 1000]
    rpc_client_outcomes [of resultless "''http://node''" 200 None "[]" ConnectionError 1000]
    rpc_client_outcomes [of offline "''http://node''" 200 None "[]" ConnectionError 1000]
    rpc_client_outcomes [of garbled "''http://node''" 200 None "[]" ConnectionError 1000]
  by (simp add: unavailable_def resultless_def offline_def garbled_def world_of_def)

section \<open>Port prober\<close>


text \<open>
  Claim C6 fails on the code. \<open>sock.close()\<close> stands in the \<open>try\<close> block after
  \<open>connect_ex\<close>, and the \<open>except\<close> branch has no close of its own: when the
  name of the host does not resolve, \<open>connect_ex\<close> raises, the probe logs the
  error and returns false, and socket 0 is still open, with no \<open>Close\<close> among the
  effects.
\<close>

theorem socket_left_open:
  "fst (is_port_open ''http://node'' 30303 unresolvable) = Inr False \<and>
   open_socks (snd (is_port_open ''http://node'' 30303 unresolvable)) = [0] \<and>
   trace (snd (is_port_open ''http://node'' 30303 unresolvable)) =
     [Socket 0, Settimeout 0 1, Connect_ex 0 (Some ''node'') 30303,
      Log ERROR (Error_checking_port 30303 GaiError)]"
  by (simp add: probe_defs unresolvable_def world_of_def host_of_node_def)

section \<open>Block progression poller: the baseline\<close>

text \<open>
  Claim C7. For every endpoint and timeout, when the baseline query of
  \<open>eth_blockNumber\<close> gives Absent, \<open>check_block_progression\<close> returns false at
  once: its only effects are the reading of the start time and that one POST, so
  the loop was not entered (no further reading of the clock, no further POST) and
  nothing slept.
\<close>

theorem baseline_absent_no_polling:
  "head_at w rpc_url (posts w) = Inr None \<Longrightarrow>
   check_block_progression rpc_url timeout w =
     Some (Inr False,
       w\<lparr>ticks := Suc (ticks w), posts := Suc (posts w),
         trace := trace w @ [Time, Post rpc_url block_number_payload]\<rparr>)"
proof -
  assume absent: "head_at w rpc_url (posts w) = Inr None"
  define w1 where "w1 = w\<lparr>ticks := Suc (ticks w), trace := trace w @ [Time]\<rparr>"
  have t: "time_time w = (clock w (ticks w), w1)"
    by (simp add: time_time_def w1_def)
  have "net w1 = net w" and "posts w1 = posts w"
    by (simp_all add: w1_def)
  then have "fst (fetch_latest_block_number rpc_url w1) = Inr None"
    using absent head_at_env [of w1 w rpc_url "posts w"] by (simp add: head_at_here)
  moreover have "snd (fetch_latest_block_number rpc_url w1) =
      w\<lparr>ticks := Suc (ticks w), posts := Suc (posts w),
        trace := trace w @ [Time, Post rpc_url block_number_payload]\<rparr>"
    by (simp add: fetch_latest_world w1_def)
  ultimately have "fetch_latest_block_number rpc_url w1 =
      (Inr None, w\<lparr>ticks := Suc (ticks w), posts := Suc (posts w),
        trace := trace w @ [Time, Post rpc_url block_number_payload]\<rparr>)"
    by (simp add: prod_eq_iff)
  then show ?thesis
    by (simp add: check_block_progression_def t)
qed

theorem baseline_absent_no_polling_witness:
  "head_at unavailable ''http://node'' (posts unavailable) = Inr None \<and>
   check_block_progression ''http://node'' 30 unavailable =
     Some (Inr False,
       unavailable\<lparr>ticks := Suc (ticks unavailable), posts := Suc (posts unavailable),
         trace := trace unavailable @ [Time, Post ''http://node'' block_number_payload]\<rparr>)"
proof -
  have h: "head_at unavailable ''http://node'' (posts unavailable) = Inr None"
    by (simp add: head_at_def fetch_latest_block_number_def requests_post_def unavailable_def
        world_of_def)
  show ?thesis
    using h baseline_absent_no_polling [OF h, of 30] by (rule conjI)
qed

section \<open>Consistency check\<close>

lemma py_eq_JNull_left: "py_eq JNull x = (x = JNull)"
  by (cases x) simp_all

lemma py_eq_JNull_right: "py_eq x JNull = (x = JNull)"
  by (cases x) simp_all

text \<open>
  Claim C3, as stated, fails: when neither block has a \<open>hash\<close> field both
  identifiers are \<open>None\<close>, and the comparison \<open>None == None\<close> is true, not false.
\<close>

theorem both_absent_not_false:
  "block_hash_check (JObj []) (JObj []) = Inr (JNull, JNull, True)"
  by (simp add: block_hash_check_def py_get_def dict_get_def)

text \<open>
  Claim C3, amended. For every pair of block details (dicts) for the same block
  number, the consistency check returns true if and only if the two identifiers are
  equal under \<open>==\<close>: identical strings, or both Absent. It returns false on any
  mismatch and when exactly one identifier is Absent.
\<close>

theorem consistency_verdict:
  assumes "hr = dict_get r ''hash'' JNull" and "ht = dict_get t ''hash'' JNull"
  shows "\<exists>v. block_hash_check (JObj r) (JObj t) = Inr (hr, ht, v) \<and>
           (v \<longleftrightarrow> py_eq hr ht) \<and>
           (hr = JNull \<longrightarrow> (v \<longleftrightarrow> ht = JNull)) \<and>
           (ht = JNull \<longrightarrow> (v \<longleftrightarrow> hr = JNull)) \<and>
           (\<forall>a b. hr = JStr a \<and> ht = JStr b \<longrightarrow> (v \<longleftrightarrow> a = b))"
proof (intro exI conjI)
  show "block_hash_check (JObj r) (JObj t) = Inr (hr, ht, py_eq hr ht)"
    using assms by (simp add: block_hash_check_def py_get_def)
  show "hr = JNull \<longrightarrow> (py_eq hr ht \<longleftrightarrow> ht = JNull)"
    by (simp add: py_eq_JNull_left)
  show "ht = JNull \<longrightarrow> (py_eq hr ht \<longleftrightarrow> hr = JNull)"
    by (simp add: py_eq_JNull_right)
  show "\<forall>a b. hr = JStr a \<and> ht = JStr b \<longrightarrow> (py_eq hr ht \<longleftrightarrow> a = b)"
    by simp
qed simp

theorem consistency_verdict_witness:
  "block_hash_check (JObj [(''hash'', JStr ''0xabc'')]) (JObj [(''hash'', JStr ''0xabc'')]) =
     Inr (JStr ''0xabc'', JStr ''0xabc'', True) \<and>
   block_hash_check (JObj [(''hash'', JStr ''0xabc'')]) (JObj [(''hash'', JStr ''0xdef'')]) =
     Inr (JStr ''0xabc'', JStr ''0xdef'', False) \<and>
   block_hash_check (JObj [(''hash'', JStr ''0xabc'')]) (JObj [(''number'', JStr ''0x3e8'')]) =
     Inr (JStr ''0xabc'', JNull, False)"
proof -
  have abc: "JStr ''0xabc'' = dict_get [(''hash'', JStr ''0xabc'')] ''hash'' JNull"
    by (simp add: dict_get_def)
  have def: "JStr ''0xdef'' = dict_get [(''hash'', JStr ''0xdef'')] ''hash'' JNull"
    by (simp add: dict_get_def)
  have none: "JNull = dict_get [(''number'', JStr ''0x3e8'')] ''hash'' JNull"
    by (simp add: dict_get_def)
  show ?thesis
    using consistency_verdict [OF abc abc] consistency_verdict [OF abc def]
      consistency_verdict [OF abc none]
    by auto
qed

text \<open>
  Claim C4. When both identifiers are Absent (each block details is the empty
  object of a failed fetch, or a dict without a \<open>hash\<close> field), the consistency
  check compares \<open>None\<close> with \<open>None\<close> and returns true.
\<close>

theorem both_absent_passes:
  "dict_get r ''hash'' JNull = JNull \<Longrightarrow> dict_get t ''hash'' JNull = JNull \<Longrightarrow>
   block_hash_check (JObj r) (JObj t) = Inr (JNull, JNull, True)"
  by (simp add: block_hash_check_def py_get_def)

theorem both_absent_passes_witness:
  "dict_get [(''number'', JStr ''0x3e8'')] ''hash'' JNull = JNull \<and>
   dict_get [] ''hash'' JNull = JNull \<and>
   block_hash_check (JObj [(''number'', JStr ''0x3e8'')]) (JObj []) = Inr (JNull, JNull, True)"
proof -
  have r: "dict_get [(''number'', JStr ''0x3e8'')] ''hash'' JNull = JNull"
    by (simp add: dict_get_def)
  have t: "dict_get [] ''hash'' JNull = JNull"
    by (simp add: dict_get_def)
  show ?thesis
    using r t both_absent_passes [OF r t] by simp
qed

section \<open>Check aggregator: an Absent reference head\<close>

text \<open>
  Claim C2 fails on the code. Every POST is answered with status 503, so the
  reference head is Absent. \<open>main\<close> tests for it, logs the failure and returns.
  \<open>perform_checks\<close> has no such test: it passes \<open>None\<close> on to
  \<open>fetch_block_details\<close>, where \<open>hex(None)\<close> raises \<open>TypeError\<close> after the one
  POST of the head query, and no verdict is reported.
\<close>

theorem perform_checks_absent_head_raises:
  "map_option (\<lambda>(r, w'). (r, posts w'))
     (perform_checks ''http://node'' default_reference_url default_timeout unavailable) =
     Some (Inl TypeError, 1) \<and>
   map_option (\<lambda>(r, w'). (r, posts w', last (trace w')))
     (main ''http://node'' default_reference_url default_timeout unavailable) =
     Some (Inr (), 1, Log ERROR Failed_to_fetch_latest)"
  by (simp add: perform_checks_def main_def probe_defs unavailable_def world_of_def
      host_of_node_def rpc_defs)

section \<open>Block progression poller: the loop\<close>

lemma fetch_latest_eq:
  "fetch_latest_block_number rpc_url w =
     (head_at w rpc_url (posts w),
      w\<lparr>posts := Suc (posts w), trace := trace w @ [Post rpc_url block_number_payload]\<rparr>)"
  using fetch_latest_world [of rpc_url w] head_at_here [of rpc_url w]
  by (simp add: prod_eq_iff)

lemma polling_unfold:
  "polling rpc_url timeout start b w =
     (if clock w (ticks w) - start < timeout then
        (case head_at w rpc_url (posts w) of
           Inl e \<Rightarrow>
             Some (Inl e, w\<lparr>ticks := Suc (ticks w), posts := Suc (posts w),
                            trace := trace w @ [Time, Post rpc_url block_number_payload]\<rparr>)
         | Inr v \<Rightarrow>
             if advanced v b then
               Some (Inr True, w\<lparr>ticks := Suc (ticks w), posts := Suc (posts w),
                                 trace := trace w @ [Time, Post rpc_url block_number_payload]\<rparr>)
             else polling rpc_url timeout start b
                    (w\<lparr>ticks := Suc (ticks w), posts := Suc (posts w),
                       trace := trace w @ [Time, Post rpc_url block_number_payload, Sleep 5]\<rparr>))
      else Some (Inr False, w\<lparr>ticks := Suc (ticks w), trace := trace w @ [Time]\<rparr>))"
proof -
  define w1 where "w1 = w\<lparr>ticks := Suc (ticks w), trace := trace w @ [Time]\<rparr>"
  have h: "head_at w1 rpc_url (posts w1) = head_at w rpc_url (posts w)"
    using head_at_env [of w1 w rpc_url "posts w"] by (simp add: w1_def)
  have f: "fetch_latest_block_number rpc_url w1 =
      (head_at w rpc_url (posts w),
       w\<lparr>ticks := Suc (ticks w), posts := Suc (posts w),
         trace := trace w @ [Time, Post rpc_url block_number_payload]\<rparr>)"
    using fetch_latest_eq [of rpc_url w1] h by (simp add: w1_def)
  show ?thesis
    by (subst polling.simps)
      (simp add: time_time_def time_sleep_def f [unfolded w1_def] split: sum.splits)
qed

lemma polled_fields [simp]:
  "clock (polled w rpc_url k) = clock w" "net (polled w rpc_url k) = net w"
  "ticks (polled w rpc_url k) = ticks w + k" "posts (polled w rpc_url k) = posts w + k"
  by (simp_all add: polled_def)

lemma concat_replicate_snoc: "concat (replicate (Suc k) xs) = concat (replicate k xs) @ xs"
proof -
  have "replicate (Suc k) xs = replicate k xs @ [xs]"
    by (simp add: replicate_append_same)
  then have "concat (replicate (Suc k) xs) = concat (replicate k xs @ [xs])"
    by (rule arg_cong)
  then show ?thesis
    by (simp only: concat_append concat.simps append_Nil2)
qed

lemma polled_Suc:
  "polled w rpc_url (Suc k) =
     (polled w rpc_url k)\<lparr>ticks := Suc (ticks w + k), posts := Suc (posts w + k),
        trace := trace (polled w rpc_url k) @ [Time, Post rpc_url block_number_payload, Sleep 5]\<rparr>"
  by (simp add: polled_def concat_replicate_snoc del: replicate_Suc replicate.simps)

text \<open>Polls inside the window that show no increase leave the loop where it was.\<close>

lemma polling_skip:
  assumes "list_all (\<lambda>j. clock w (ticks w + j) - start < timeout \<and>
             (case head_at w rpc_url (posts w + j) of Inl e \<Rightarrow> False
              | Inr v \<Rightarrow> \<not> advanced v b)) [0..<k]"
  shows "polling rpc_url timeout start b w = polling rpc_url timeout start b (polled w rpc_url k)"
  using assms
proof (induction k)
  case 0
  show ?case by (simp add: polled_def)
next
  case (Suc k)
  then have prev: "polling rpc_url timeout start b w =
      polling rpc_url timeout start b (polled w rpc_url k)"
    by simp
  from Suc.prems have win: "clock w (ticks w + k) - start < timeout"
    and quiet: "case head_at w rpc_url (posts w + k) of Inl e \<Rightarrow> False
                | Inr v \<Rightarrow> \<not> advanced v b"
    by simp_all
  have h: "head_at (polled w rpc_url k) rpc_url (posts w + k) = head_at w rpc_url (posts w + k)"
    by (rule head_at_env) simp
  show ?case
    using win quiet
    by (subst prev, subst polling_unfold)
      (simp add: h polled_Suc split: sum.splits)
qed

text \<open>A loop that returns true has seen a strict increase, after quiet polls only.\<close>

lemma polling_true:
  assumes "polling rpc_url timeout start b w = Some y"
  shows "fst y = Inr True \<longrightarrow>
    (\<exists>k c. (\<forall>j<k. clock w (ticks w + j) - start < timeout \<and>
               (\<exists>v. head_at w rpc_url (posts w + j) = Inr v \<and> \<not> advanced v b)) \<and>
            clock w (ticks w + k) - start < timeout \<and>
            head_at w rpc_url (posts w + k) = Inr (Some c) \<and> b < c)"
proof (rule polling.raw_induct
    [where P = "\<lambda>rpc_url timeout start b w y. fst y = Inr True \<longrightarrow>
      (\<exists>k c. (\<forall>j<k. clock w (ticks w + j) - start < timeout \<and>
                 (\<exists>v. head_at w rpc_url (posts w + j) = Inr v \<and> \<not> advanced v b)) \<and>
              clock w (ticks w + k) - start < timeout \<and>
              head_at w rpc_url (posts w + k) = Inr (Some c) \<and> b < c)", OF _ assms])
  fix f :: "string \<Rightarrow> rat \<Rightarrow> rat \<Rightarrow> int \<Rightarrow> world \<Rightarrow> ((exn + bool) \<times> world) option"
  fix rpc_url timeout start b w y
  assume IH: "\<And>rpc_url timeout start b w y. f rpc_url timeout start b w = Some y \<Longrightarrow>
    fst y = Inr True \<longrightarrow>
      (\<exists>k c. (\<forall>j<k. clock w (ticks w + j) - start < timeout \<and>
                 (\<exists>v. head_at w rpc_url (posts w + j) = Inr v \<and> \<not> advanced v b)) \<and>
              clock w (ticks w + k) - start < timeout \<and>
              head_at w rpc_url (posts w + k) = Inr (Some c) \<and> b < c)"
  assume body: "(case time_time w of
        (now, w1) \<Rightarrow>
          if now - start < timeout then
            (case fetch_latest_block_number rpc_url w1 of
               (Inl e, w2) \<Rightarrow> Some (Inl e, w2)
             | (Inr current_block_number, w2) \<Rightarrow>
                 if advanced current_block_number b then Some (Inr True, w2)
                 else f rpc_url timeout start b (time_sleep 5 w2))
          else Some (Inr False, w1)) = Some y"
  define w1 where "w1 = w\<lparr>ticks := Suc (ticks w), trace := trace w @ [Time]\<rparr>"
  define w3 where "w3 = w\<lparr>ticks := Suc (ticks w), posts := Suc (posts w),
    trace := trace w @ [Time, Post rpc_url block_number_payload, Sleep 5]\<rparr>"
  have h: "head_at w1 rpc_url (posts w1) = head_at w rpc_url (posts w)"
    using head_at_env [of w1 w rpc_url "posts w"] by (simp add: w1_def)
  have fetch: "fetch_latest_block_number rpc_url w1 =
      (head_at w rpc_url (posts w),
       w\<lparr>ticks := Suc (ticks w), posts := Suc (posts w),
         trace := trace w @ [Time, Post rpc_url block_number_payload]\<rparr>)"
    using fetch_latest_eq [of rpc_url w1] h by (simp add: w1_def)
  show "fst y = Inr True \<longrightarrow>
      (\<exists>k c. (\<forall>j<k. clock w (ticks w + j) - start < timeout \<and>
                 (\<exists>v. head_at w rpc_url (posts w + j) = Inr v \<and> \<not> advanced v b)) \<and>
              clock w (ticks w + k) - start < timeout \<and>
              head_at w rpc_url (posts w + k) = Inr (Some c) \<and> b < c)"
  proof
    assume true: "fst y = Inr True"
    have win: "clock w (ticks w) - start < timeout"
      using body true by (auto simp add: time_time_def split: if_splits)
    obtain v where v: "head_at w rpc_url (posts w) = Inr v"
      using body true win
      by (cases "head_at w rpc_url (posts w)")
        (auto simp add: time_time_def fetch [unfolded w1_def])
    show "\<exists>k c. (\<forall>j<k. clock w (ticks w + j) - start < timeout \<and>
                 (\<exists>v. head_at w rpc_url (posts w + j) = Inr v \<and> \<not> advanced v b)) \<and>
              clock w (ticks w + k) - start < timeout \<and>
              head_at w rpc_url (posts w + k) = Inr (Some c) \<and> b < c"
    proof (cases "advanced v b")
      case True
      then obtain c where "v = Some c" and "b < c"
        by (cases v) (simp_all add: advanced_def)
      with v win have "(\<forall>j<0::nat. clock w (ticks w + j) - start < timeout \<and>
                 (\<exists>v. head_at w rpc_url (posts w + j) = Inr v \<and> \<not> advanced v b)) \<and>
              clock w (ticks w + 0) - start < timeout \<and>
              head_at w rpc_url (posts w + 0) = Inr (Some c) \<and> b < c"
        by simp
      then show ?thesis by blast
    next
      case False
      with body win v have "f rpc_url timeout start b w3 = Some y"
        by (simp add: time_time_def time_sleep_def fetch [unfolded w1_def] w3_def)
      from IH [OF this] true obtain k c where
        q: "\<forall>j<k. clock w3 (ticks w3 + j) - start < timeout \<and>
                 (\<exists>v. head_at w3 rpc_url (posts w3 + j) = Inr v \<and> \<not> advanced v b)"
        and wk: "clock w3 (ticks w3 + k) - start < timeout"
        and hk: "head_at w3 rpc_url (posts w3 + k) = Inr (Some c)" and bc: "b < c"
        by blast
      have env: "\<And>n. head_at w3 rpc_url n = head_at w rpc_url n"
        by (rule head_at_env) (simp add: w3_def)
      have c3: "clock w3 = clock w" "ticks w3 = Suc (ticks w)" "posts w3 = Suc (posts w)"
        by (simp_all add: w3_def)
      have "\<forall>j<Suc k. clock w (ticks w + j) - start < timeout \<and>
                 (\<exists>v. head_at w rpc_url (posts w + j) = Inr v \<and> \<not> advanced v b)"
      proof (intro allI impI)
        fix j assume "j < Suc k"
        show "clock w (ticks w + j) - start < timeout \<and>
                 (\<exists>v. head_at w rpc_url (posts w + j) = Inr v \<and> \<not> advanced v b)"
        proof (cases j)
          case 0
          with win v False show ?thesis by simp
        next
          case (Suc i)
          with \<open>j < Suc k\<close> have "i < k" by simp
          with q Suc show ?thesis by (simp add: env c3)
        qed
      qed
      moreover have "clock w (ticks w + Suc k) - start < timeout"
        using wk by (simp add: c3)
      moreover have "head_at w rpc_url (posts w + Suc k) = Inr (Some c)"
        using hk by (simp add: env c3)
      ultimately show ?thesis using bc by blast
    qed
  qed
qed

lemma check_block_progression_unfold:
  "check_block_progression rpc_url timeout w =
     (case head_at w rpc_url (posts w) of
        Inl e \<Rightarrow>
          Some (Inl e, w\<lparr>ticks := Suc (ticks w), posts := Suc (posts w),
                         trace := trace w @ [Time, Post rpc_url block_number_payload]\<rparr>)
      | Inr None \<Rightarrow>
          Some (Inr False, w\<lparr>ticks := Suc (ticks w), posts := Suc (posts w),
                             trace := trace w @ [Time, Post rpc_url block_number_payload]\<rparr>)
      | Inr (Some b) \<Rightarrow>
          polling rpc_url timeout (clock w (ticks w)) b
            (w\<lparr>ticks := Suc (ticks w), posts := Suc (posts w),
               trace := trace w @ [Time, Post rpc_url block_number_payload]\<rparr>))"
proof -
  define w1 where "w1 = w\<lparr>ticks := Suc (ticks w), trace := trace w @ [Time]\<rparr>"
  have h: "head_at w1 rpc_url (posts w1) = head_at w rpc_url (posts w)"
    using head_at_env [of w1 w rpc_url "posts w"] by (simp add: w1_def)
  have f: "fetch_latest_block_number rpc_url w1 =
      (head_at w rpc_url (posts w),
       w\<lparr>ticks := Suc (ticks w), posts := Suc (posts w),
         trace := trace w @ [Time, Post rpc_url block_number_payload]\<rparr>)"
    using fetch_latest_eq [of rpc_url w1] h by (simp add: w1_def)
  show ?thesis
    by (simp add: check_block_progression_def time_time_def f [unfolded w1_def]
        split: sum.splits option.splits)
qed

lemma quiet_case:
  "(case x of Inl e \<Rightarrow> False | Inr v \<Rightarrow> P v) = (\<exists>v. x = Inr v \<and> P v)"
  by (cases x) simp_all

lemma quiet_polls_iff:
  "quiet_polls w rpc_url timeout b k =
     (\<forall>j<k. clock w (ticks w + 1 + j) - clock w (ticks w) < timeout \<and>
        (\<exists>v. head_at w rpc_url (posts w + 1 + j) = Inr v \<and> \<not> advanced v b))"
  by (auto simp add: quiet_polls_def in_window_def list_all_iff quiet_case)

lemma progression_success:
  assumes base: "head_at w rpc_url (posts w) = Inr (Some b)"
    and quiet: "quiet_polls w rpc_url timeout b k"
    and win: "in_window w timeout k"
    and head: "head_at w rpc_url (posts w + 1 + k) = Inr (Some c)" and inc: "b < c"
  shows "check_block_progression rpc_url timeout w =
     Some (Inr True,
       w\<lparr>ticks := ticks w + k + 2, posts := posts w + k + 2,
         trace := trace w @ [Time, Post rpc_url block_number_payload] @
           concat (replicate k [Time, Post rpc_url block_number_payload, Sleep 5]) @
           [Time, Post rpc_url block_number_payload]\<rparr>)"
proof -
  define w2 where "w2 = w\<lparr>ticks := Suc (ticks w), posts := Suc (posts w),
    trace := trace w @ [Time, Post rpc_url block_number_payload]\<rparr>"
  have env: "\<And>n. head_at w2 rpc_url n = head_at w rpc_url n"
    by (rule head_at_env) (simp add: w2_def)
  have f2: "clock w2 = clock w" "ticks w2 = Suc (ticks w)" "posts w2 = Suc (posts w)"
    "net w2 = net w"
    by (simp_all add: w2_def)
  have "list_all (\<lambda>j. clock w2 (ticks w2 + j) - clock w (ticks w) < timeout \<and>
             (case head_at w2 rpc_url (posts w2 + j) of Inl e \<Rightarrow> False
              | Inr v \<Rightarrow> \<not> advanced v b)) [0..<k]"
    using quiet by (simp add: quiet_polls_def in_window_def env f2)
  then have skip: "polling rpc_url timeout (clock w (ticks w)) b w2 =
      polling rpc_url timeout (clock w (ticks w)) b (polled w2 rpc_url k)"
    by (rule polling_skip)
  have hk: "head_at (polled w2 rpc_url k) rpc_url (Suc (posts w + k)) = Inr (Some c)"
    using head head_at_env [of "polled w2 rpc_url k" w rpc_url "Suc (posts w + k)"]
    by (simp add: f2)
  have "polling rpc_url timeout (clock w (ticks w)) b (polled w2 rpc_url k) =
      Some (Inr True,
        (polled w2 rpc_url k)\<lparr>ticks := Suc (ticks w2 + k), posts := Suc (posts w2 + k),
          trace := trace (polled w2 rpc_url k) @ [Time, Post rpc_url block_number_payload]\<rparr>)"
    using win inc by (subst polling_unfold) (simp add: hk f2 in_window_def advanced_def)
  with skip base show ?thesis
    unfolding w2_def by (simp add: check_block_progression_unfold polled_def)
qed

lemma progression_timeout:
  assumes base: "head_at w rpc_url (posts w) = Inr (Some b)"
    and quiet: "quiet_polls w rpc_url timeout b k"
    and out: "\<not> in_window w timeout k"
  shows "check_block_progression rpc_url timeout w =
     Some (Inr False,
       w\<lparr>ticks := ticks w + k + 2, posts := posts w + k + 1,
         trace := trace w @ [Time, Post rpc_url block_number_payload] @
           concat (replicate k [Time, Post rpc_url block_number_payload, Sleep 5]) @
           [Time]\<rparr>)"
proof -
  define w2 where "w2 = w\<lparr>ticks := Suc (ticks w), posts := Suc (posts w),
    trace := trace w @ [Time, Post rpc_url block_number_payload]\<rparr>"
  have env: "\<And>n. head_at w2 rpc_url n = head_at w rpc_url n"
    by (rule head_at_env) (simp add: w2_def)
  have f2: "clock w2 = clock w" "ticks w2 = Suc (ticks w)" "posts w2 = Suc (posts w)"
    "net w2 = net w"
    by (simp_all add: w2_def)
  have "list_all (\<lambda>j. clock w2 (ticks w2 + j) - clock w (ticks w) < timeout \<and>
             (case head_at w2 rpc_url (posts w2 + j) of Inl e \<Rightarrow> False
              | Inr v \<Rightarrow> \<not> advanced v b)) [0..<k]"
    using quiet by (simp add: quiet_polls_def in_window_def env f2)
  then have skip: "polling rpc_url timeout (clock w (ticks w)) b w2 =
      polling rpc_url timeout (clock w (ticks w)) b (polled w2 rpc_url k)"
    by (rule polling_skip)
  have "polling rpc_url timeout (clock w (ticks w)) b (polled w2 rpc_url k) =
      Some (Inr False,
        (polled w2 rpc_url k)\<lparr>ticks := Suc (ticks w2 + k),
          trace := trace (polled w2 rpc_url k) @ [Time]\<rparr>)"
    using out by (subst polling_unfold) (simp add: f2 in_window_def)
  with skip base show ?thesis
    unfolding w2_def by (simp add: check_block_progression_unfold polled_def)
qed

lemma progression_true_only:
  assumes "check_block_progression rpc_url timeout w = Some (Inr True, w')"
  shows "\<exists>b k c. head_at w rpc_url (posts w) = Inr (Some b) \<and>
           quiet_polls w rpc_url timeout b k \<and> in_window w timeout k \<and>
           head_at w rpc_url (posts w + 1 + k) = Inr (Some c) \<and> b < c"
proof -
  define w2 where "w2 = w\<lparr>ticks := Suc (ticks w), posts := Suc (posts w),
    trace := trace w @ [Time, Post rpc_url block_number_payload]\<rparr>"
  have env: "\<And>n. head_at w2 rpc_url n = head_at w rpc_url n"
    by (rule head_at_env) (simp add: w2_def)
  have f2: "clock w2 = clock w" "ticks w2 = Suc (ticks w)" "posts w2 = Suc (posts w)"
    "net w2 = net w"
    by (simp_all add: w2_def)
  from assms obtain b where base: "head_at w rpc_url (posts w) = Inr (Some b)"
    and loop: "polling rpc_url timeout (clock w (ticks w)) b w2 = Some (Inr True, w')"
    by (auto simp add: check_block_progression_unfold w2_def split: sum.splits option.splits)
  from polling_true [OF loop] obtain k c where
    "\<forall>j<k. clock w2 (ticks w2 + j) - clock w (ticks w) < timeout \<and>
       (\<exists>v. head_at w2 rpc_url (posts w2 + j) = Inr v \<and> \<not> advanced v b)"
    "clock w2 (ticks w2 + k) - clock w (ticks w) < timeout"
    "head_at w2 rpc_url (posts w2 + k) = Inr (Some c)" "b < c"
    by auto
  then have "quiet_polls w rpc_url timeout b k \<and> in_window w timeout k \<and>
      head_at w rpc_url (posts w + 1 + k) = Inr (Some c) \<and> b < c"
    by (simp add: quiet_polls_iff in_window_def env f2)
  with base show ?thesis by blast
qed

text \<open>
  Claim C5. Started with a baseline \<open>b\<close> that is present, for every endpoint and
  timeout: (1) if the first \<open>k\<close> passes are quiet and pass \<open>k\<close> is inside the
  window with a head \<open>c > b\<close>, \<open>check_block_progression\<close> returns true, and its
  last effect is that poll: no sleep and no further pass follows it; (2) it returns
  true only so, that is, a run in which every head is Absent, equal to or below the
  baseline never yields true; (3) if the first \<open>k\<close> passes are quiet and the clock
  reading of pass \<open>k\<close> is outside the window, it returns false, with no POST in
  that pass.
\<close>

theorem progression_verdict:
  "(head_at w rpc_url (posts w) = Inr (Some b) \<and> quiet_polls w rpc_url timeout b k \<and>
    in_window w timeout k \<and> head_at w rpc_url (posts w + 1 + k) = Inr (Some c) \<and> b < c
      \<longrightarrow> check_block_progression rpc_url timeout w =
           Some (Inr True,
             w\<lparr>ticks := ticks w + k + 2, posts := posts w + k + 2,
               trace := trace w @ [Time, Post rpc_url block_number_payload] @
                 concat (replicate k [Time, Post rpc_url block_number_payload, Sleep 5]) @
                 [Time, Post rpc_url block_number_payload]\<rparr>)) \<and>
   (check_block_progression rpc_url timeout w = Some (Inr True, w')
      \<longrightarrow> (\<exists>b k c. head_at w rpc_url (posts w) = Inr (Some b) \<and>
             quiet_polls w rpc_url timeout b k \<and> in_window w timeout k \<and>
             head_at w rpc_url (posts w + 1 + k) = Inr (Some c) \<and> b < c)) \<and>
   (head_at w rpc_url (posts w) = Inr (Some b) \<and> quiet_polls w rpc_url timeout b k \<and>
    \<not> in_window w timeout k
      \<longrightarrow> check_block_progression rpc_url timeout w =
           Some (Inr False,
             w\<lparr>ticks := ticks w + k + 2, posts := posts w + k + 1,
               trace := trace w @ [Time, Post rpc_url block_number_payload] @
                 concat (replicate k [Time, Post rpc_url block_number_payload, Sleep 5]) @
                 [Time]\<rparr>))"
  using progression_success [of w rpc_url b timeout k c]
    progression_true_only [of rpc_url timeout w w']
    progression_timeout [of w rpc_url b timeout k]
  by blast

lemmas observe_defs = head_at_def fetch_latest_block_number_def requests_post_def py_get_def
  dict_get_def block_number_payload_def world_of_def advancing_net_def head_reply_def
  quiet_polls_def in_window_def advanced_def

theorem progression_verdict_witness:
  "check_block_progression ''http://node'' 30 lagging =
     Some (Inr True,
       lagging\<lparr>ticks := ticks lagging + Suc 0 + 2, posts := posts lagging + Suc 0 + 2,
         trace := trace lagging @ [Time, Post ''http://node'' block_number_payload] @
           concat (replicate (Suc 0) [Time, Post ''http://node'' block_number_payload, Sleep 5]) @
           [Time, Post ''http://node'' block_number_payload]\<rparr>) \<and>
   (\<exists>b k c. head_at lagging ''http://node'' (posts lagging) = Inr (Some b) \<and>
      quiet_polls lagging ''http://node'' 30 b k \<and> in_window lagging 30 k \<and>
      head_at lagging ''http://node'' (posts lagging + 1 + k) = Inr (Some c) \<and> b < c) \<and>
   check_block_progression ''http://node'' 10 stalled =
     Some (Inr False,
       stalled\<lparr>ticks := ticks stalled + Suc 0 + 2, posts := posts stalled + Suc 0 + 1,
         trace := trace stalled @ [Time, Post ''http://node'' block_number_payload] @
           concat (replicate (Suc 0) [Time, Post ''http://node'' block_number_payload, Sleep 5]) @
           [Time]\<rparr>)"
proof -
  have up: "head_at lagging ''http://node'' (posts lagging) = Inr (Some 1000) \<and>
      quiet_polls lagging ''http://node'' 30 1000 (Suc 0) \<and> in_window lagging 30 (Suc 0) \<and>
      head_at lagging ''http://node'' (posts lagging + 1 + Suc 0) = Inr (Some 1001) \<and>
      (1000::int) < 1001"
    by (simp add: lagging_def observe_defs int_3e8 int_3e9)
  have still: "head_at stalled ''http://node'' (posts stalled) = Inr (Some 1000) \<and>
      quiet_polls stalled ''http://node'' 10 1000 (Suc 0) \<and> \<not> in_window stalled 10 (Suc 0)"
    by (simp add: stalled_def observe_defs int_3e8 int_3e9)
  note a = progression_verdict [of lagging "''http://node''" 1000 30 "Suc 0" 1001]
  note c = progression_verdict [of stalled "''http://node''" 1000 10 "Suc 0" 1001]
  from a up have yes: "check_block_progression ''http://node'' 30 lagging =
     Some (Inr True,
       lagging\<lparr>ticks := ticks lagging + Suc 0 + 2, posts := posts lagging + Suc 0 + 2,
         trace := trace lagging @ [Time, Post ''http://node'' block_number_payload] @
           concat (replicate (Suc 0) [Time, Post ''http://node'' block_number_payload, Sleep 5]) @
           [Time, Post ''http://node'' block_number_payload]\<rparr>)"
    by blast
  from a yes have "\<exists>b k c. head_at lagging ''http://node'' (posts lagging) = Inr (Some b) \<and>
      quiet_polls lagging ''http://node'' 30 b k \<and> in_window lagging 30 k \<and>
      head_at lagging ''http://node'' (posts lagging + 1 + k) = Inr (Some c) \<and> b < c"
    by blast
  moreover from c still have "check_block_progression ''http://node'' 10 stalled =
     Some (Inr False,
       stalled\<lparr>ticks := ticks stalled + Suc 0 + 2, posts := posts stalled + Suc 0 + 1,
         trace := trace stalled @ [Time, Post ''http://node'' block_number_payload] @
           concat (replicate (Suc 0) [Time, Post ''http://node'' block_number_payload, Sleep 5]) @
           [Time]\<rparr>)"
    by blast
  ultimately show ?thesis using yes by blast
qed

section \<open>Check aggregator: the block number of the comparison\<close>

lemma no_post_refl: "no_post w w"
  by (simp add: no_post_def)

lemma no_post_trans: "no_post w w1 \<Longrightarrow> no_post w1 w2 \<Longrightarrow> no_post w w2"
  by (simp add: no_post_def)

lemma no_post_head: "no_post w w' \<Longrightarrow> head_at w' rpc_url (posts w') = head_at w rpc_url (posts w)"
  using head_at_env [of w' w rpc_url "posts w"] by (simp add: no_post_def)

lemma logging_no_post: "no_post w (logging l m w)"
  by (simp add: no_post_def logging_def posted_def is_post_def)

lemma is_port_open_no_post: "no_post w (snd (is_port_open host port w))"
  by (simp add: no_post_def posted_def is_post_def probe_defs
      split: sum.splits option.splits prod.splits)

lemma port_scan_no_post: "no_post w (snd (port_scan rpc_url ports w))"
proof (induction ports arbitrary: w)
  case Nil
  show ?case by (simp add: no_post_refl)
next
  case (Cons port ports)
  obtain r w1 where one: "is_port_open rpc_url port w = (r, w1)"
    by (cases "is_port_open rpc_url port w")
  then have n1: "no_post w w1"
    using is_port_open_no_post [of w rpc_url port] by simp
  show ?case
  proof (cases r)
    case (Inl e)
    with one n1 show ?thesis by simp
  next
    case (Inr status)
    obtain r2 w2 where rest: "port_scan rpc_url ports w1 = (r2, w2)"
      by (cases "port_scan rpc_url ports w1")
    then have "no_post w1 w2"
      using Cons.IH [of w1] by simp
    with n1 have "no_post w w2" by (rule no_post_trans)
    with one Inr rest show ?thesis by (cases r2) simp_all
  qed
qed

lemma log_port_status_no_post: "no_post w (log_port_status ps w)"
proof (induction ps arbitrary: w)
  case Nil
  show ?case by (simp add: no_post_refl)
next
  case (Cons p ps)
  obtain port status where p: "p = (port, status)" by (cases p)
  show ?case
    using Cons.IH [of "logging INFO (Port_is_open port) w"]
      Cons.IH [of "logging ERROR (Port_is_closed port) w"]
      logging_no_post [of w INFO "Port_is_open port"]
      logging_no_post [of w ERROR "Port_is_closed port"]
    by (auto simp add: p intro: no_post_trans)
qed

lemma report_main_no_post: "no_post w (report_main n rh th a b c w)"
  by (simp add: report_main_def Let_def no_post_def logging_def posted_def is_post_def)

lemma polling_posted:
  assumes "polling rpc_url timeout start b w = Some y"
  shows "\<exists>polls. posted (snd y) = posted w @ polls \<and>
           set polls \<subseteq> {Post rpc_url block_number_payload}"
proof (rule polling.raw_induct
    [where P = "\<lambda>rpc_url timeout start b w y.
       \<exists>polls. posted (snd y) = posted w @ polls \<and>
         set polls \<subseteq> {Post rpc_url block_number_payload}", OF _ assms])
  fix f :: "string \<Rightarrow> rat \<Rightarrow> rat \<Rightarrow> int \<Rightarrow> world \<Rightarrow> ((exn + bool) \<times> world) option"
  fix rpc_url timeout start b w y
  assume IH: "\<And>rpc_url timeout start b w y. f rpc_url timeout start b w = Some y \<Longrightarrow>
    \<exists>polls. posted (snd y) = posted w @ polls \<and>
      set polls \<subseteq> {Post rpc_url block_number_payload}"
  assume body: "(case time_time w of
        (now, w1) \<Rightarrow>
          if now - start < timeout then
            (case fetch_latest_block_number rpc_url w1 of
               (Inl e, w2) \<Rightarrow> Some (Inl e, w2)
             | (Inr current_block_number, w2) \<Rightarrow>
                 if advanced current_block_number b then Some (Inr True, w2)
                 else f rpc_url timeout start b (time_sleep 5 w2))
          else Some (Inr False, w1)) = Some y"
  define w1 where "w1 = w\<lparr>ticks := Suc (ticks w), trace := trace w @ [Time]\<rparr>"
  define w2 where "w2 = w\<lparr>ticks := Suc (ticks w), posts := Suc (posts w),
    trace := trace w @ [Time, Post rpc_url block_number_payload]\<rparr>"
  define w3 where "w3 = w\<lparr>ticks := Suc (ticks w), posts := Suc (posts w),
    trace := trace w @ [Time, Post rpc_url block_number_payload, Sleep 5]\<rparr>"
  have p1: "posted w1 = posted w"
    and p2: "posted w2 = posted w @ [Post rpc_url block_number_payload]"
    and p3: "posted w3 = posted w @ [Post rpc_url block_number_payload]"
    by (simp_all add: w1_def w2_def w3_def posted_def is_post_def)
  obtain r where fetch: "fetch_latest_block_number rpc_url w1 = (r, w2)"
    using fetch_latest_eq [of rpc_url w1] by (simp add: w1_def w2_def)
  from body have cases: "y = (Inr False, w1) \<or> (\<exists>res. y = (res, w2)) \<or>
      f rpc_url timeout start b w3 = Some y"
    by (auto simp add: time_time_def time_sleep_def fetch [unfolded w1_def w2_def] w1_def w2_def
        w3_def split: if_splits sum.splits)
  then show "\<exists>polls. posted (snd y) = posted w @ polls \<and>
      set polls \<subseteq> {Post rpc_url block_number_payload}"
  proof (elim disjE exE)
    assume "y = (Inr False, w1)"
    then have "posted (snd y) = posted w @ [] \<and> set [] \<subseteq> {Post rpc_url block_number_payload}"
      by (simp add: p1)
    then show ?thesis by blast
  next
    fix res assume "y = (res, w2)"
    then have "posted (snd y) = posted w @ [Post rpc_url block_number_payload] \<and>
        set [Post rpc_url block_number_payload] \<subseteq> {Post rpc_url block_number_payload}"
      by (simp add: p2)
    then show ?thesis by blast
  next
    assume "f rpc_url timeout start b w3 = Some y"
    from IH [OF this] obtain polls where "posted (snd y) = posted w3 @ polls"
      and "set polls \<subseteq> {Post rpc_url block_number_payload}"
      by blast
    then have "posted (snd y) = posted w @ (Post rpc_url block_number_payload # polls) \<and>
        set (Post rpc_url block_number_payload # polls) \<subseteq> {Post rpc_url block_number_payload}"
      by (simp add: p3)
    then show ?thesis by blast
  qed
qed

lemma progression_posted:
  assumes "check_block_progression rpc_url timeout w = Some y"
  shows "\<exists>polls. posted (snd y) = posted w @ polls \<and>
           set polls \<subseteq> {Post rpc_url block_number_payload}"
proof -
  define w2 where "w2 = w\<lparr>ticks := Suc (ticks w), posts := Suc (posts w),
    trace := trace w @ [Time, Post rpc_url block_number_payload]\<rparr>"
  have p2: "posted w2 = posted w @ [Post rpc_url block_number_payload]"
    by (simp add: w2_def posted_def is_post_def)
  from assms have "(\<exists>res. y = (res, w2)) \<or>
      (\<exists>b. polling rpc_url timeout (clock w (ticks w)) b w2 = Some y)"
    by (auto simp add: check_block_progression_unfold w2_def split: sum.splits option.splits)
  then show ?thesis
  proof (elim disjE exE)
    fix res assume "y = (res, w2)"
    then have "posted (snd y) = posted w @ [Post rpc_url block_number_payload] \<and>
        set [Post rpc_url block_number_payload] \<subseteq> {Post rpc_url block_number_payload}"
      by (simp add: p2)
    then show ?thesis by blast
  next
    fix b assume "polling rpc_url timeout (clock w (ticks w)) b w2 = Some y"
    from polling_posted [OF this] obtain polls where "posted (snd y) = posted w2 @ polls"
      and "set polls \<subseteq> {Post rpc_url block_number_payload}"
      by blast
    then have "posted (snd y) = posted w @ (Post rpc_url block_number_payload # polls) \<and>
        set (Post rpc_url block_number_payload # polls) \<subseteq> {Post rpc_url block_number_payload}"
      by (simp add: p2)
    then show ?thesis by blast
  qed
qed

lemma fetch_details_eq:
  "\<exists>r. fetch_block_details rpc_url (Some n) w =
     (r, w\<lparr>posts := Suc (posts w),
           trace := trace w @ [Post rpc_url (block_details_payload n)]\<rparr>)"
  using fetch_details_world [of rpc_url n w]
  by (cases "fetch_block_details rpc_url (Some n) w") simp

lemma fetch_details_None: "fetch_block_details rpc_url None w = (Inl TypeError, w)"
  by (simp add: fetch_block_details_def)

lemma comparison_posted:
  assumes ref: "fetch_block_details reference_url (Some n) w2 = (r3, w3)"
    and tgt: "fetch_block_details rpc_url (Some n) w3 = (r4, w4)"
    and prog: "check_block_progression rpc_url timeout w4 = Some (r5, w5)"
  shows "\<exists>polls. posted w5 =
      posted w2 @ [Post reference_url (block_details_payload n),
                   Post rpc_url (block_details_payload n)] @ polls \<and>
      set polls \<subseteq> {Post rpc_url block_number_payload}"
proof -
  have p3: "posted w3 = posted w2 @ [Post reference_url (block_details_payload n)]"
    using ref fetch_details_eq [of reference_url n w2]
    by (auto simp add: posted_def is_post_def)
  have p4: "posted w4 = posted w3 @ [Post rpc_url (block_details_payload n)]"
    using tgt fetch_details_eq [of rpc_url n w3]
    by (auto simp add: posted_def is_post_def)
  from progression_posted [OF prog] obtain polls where "posted w5 = posted w4 @ polls"
    and "set polls \<subseteq> {Post rpc_url block_number_payload}"
    by auto
  then have "posted w5 =
      posted w2 @ [Post reference_url (block_details_payload n),
                   Post rpc_url (block_details_payload n)] @ polls \<and>
      set polls \<subseteq> {Post rpc_url block_number_payload}"
    by (simp add: p3 p4)
  then show ?thesis by blast
qed

lemma reference_head_posted:
  assumes scan: "no_post w w1"
    and head: "fetch_latest_block_number reference_url w1 = (r, w2)"
  shows "r = head_at w reference_url (posts w) \<and>
    posted w2 = posted w @ [Post reference_url block_number_payload]"
  using head fetch_latest_eq [of reference_url w1] no_post_head [OF scan, of reference_url] scan
  by (auto simp add: posted_def is_post_def no_post_def)

lemma perform_checks_posted:
  assumes run: "perform_checks rpc_url reference_url timeout w = Some (Inr results, w')"
  shows "\<exists>n polls. head_at w reference_url (posts w) = Inr (Some n) \<and>
      posted w' =
        posted w @ [Post reference_url block_number_payload,
                    Post reference_url (block_details_payload n),
                    Post rpc_url (block_details_payload n)] @ polls \<and>
      set polls \<subseteq> {Post rpc_url block_number_payload}"
proof -
  from run obtain ps w1 latest w2 rd w3 td w4 bp where
    scan: "port_scan rpc_url [30303, 9003, 30304, 8369, 18369] w = (Inr ps, w1)"
    and head: "fetch_latest_block_number reference_url w1 = (Inr latest, w2)"
    and ref: "fetch_block_details reference_url latest w2 = (Inr rd, w3)"
    and tgt: "fetch_block_details rpc_url latest w3 = (Inr td, w4)"
    and prog: "check_block_progression rpc_url timeout w4 = Some (Inr bp, w')"
    by (auto simp add: perform_checks_def simp del: port_scan.simps
        split: prod.splits sum.splits option.splits)
  from ref obtain n where n: "latest = Some n"
    by (cases latest) (simp_all add: fetch_details_None)
  have "no_post w w1"
    using scan port_scan_no_post [of w rpc_url "[30303, 9003, 30304, 8369, 18369]"]
    by (simp del: port_scan.simps)
  from reference_head_posted [OF this head]
  have h: "head_at w reference_url (posts w) = Inr (Some n)"
    and p2: "posted w2 = posted w @ [Post reference_url block_number_payload]"
    by (simp_all add: n)
  from comparison_posted [OF ref [unfolded n] tgt [unfolded n] prog] obtain polls where
    "posted w' = posted w2 @ [Post reference_url (block_details_payload n),
        Post rpc_url (block_details_payload n)] @ polls"
    and "set polls \<subseteq> {Post rpc_url block_number_payload}"
    by blast
  with h p2 have "head_at w reference_url (posts w) = Inr (Some n) \<and>
      posted w' =
        posted w @ [Post reference_url block_number_payload,
                    Post reference_url (block_details_payload n),
                    Post rpc_url (block_details_payload n)] @ polls \<and>
      set polls \<subseteq> {Post rpc_url block_number_payload}"
    by simp
  then show ?thesis by blast
qed

lemma main_posted:
  assumes run: "main rpc_url reference_url timeout w = Some (Inr (), w')"
  shows "(head_at w reference_url (posts w) = Inr None \<and>
          posted w' = posted w @ [Post reference_url block_number_payload]) \<or>
    (\<exists>n polls. head_at w reference_url (posts w) = Inr (Some n) \<and>
      posted w' =
        posted w @ [Post reference_url block_number_payload,
                    Post reference_url (block_details_payload n),
                    Post rpc_url (block_details_payload n)] @ polls \<and>
      set polls \<subseteq> {Post rpc_url block_number_payload})"
proof -
  define w0 where "w0 = logging INFO Starting_the_script w"
  obtain r1 w1 where scan: "port_scan rpc_url [30303, 9003, 30304] w0 = (r1, w1)"
    by (cases "port_scan rpc_url [30303, 9003, 30304] w0")
  from run scan obtain ps where ps: "r1 = Inr ps"
    by (cases r1) (simp_all add: main_def w0_def del: port_scan.simps)
  define wl where "wl = log_port_status ps w1"
  have quiet: "no_post w wl"
  proof -
    have "no_post w w0"
      by (simp add: w0_def logging_no_post)
    moreover have "no_post w0 w1"
      using scan port_scan_no_post [of w0 rpc_url "[30303, 9003, 30304]"]
      by (simp del: port_scan.simps)
    moreover have "no_post w1 wl"
      by (simp add: wl_def log_port_status_no_post)
    ultimately show ?thesis
      by (blast intro: no_post_trans)
  qed
  obtain r2 w2 where head: "fetch_latest_block_number reference_url wl = (r2, w2)"
    by (cases "fetch_latest_block_number reference_url wl")
  from reference_head_posted [OF quiet head]
  have h: "r2 = head_at w reference_url (posts w)"
    and p2: "posted w2 = posted w @ [Post reference_url block_number_payload]"
    by simp_all
  from run scan ps head obtain latest where latest: "r2 = Inr latest"
    by (cases r2)
      (simp_all add: main_def w0_def [symmetric] wl_def [symmetric] del: port_scan.simps)
  show ?thesis
  proof (cases latest)
    case None
    with run scan ps head latest have "w' = logging ERROR Failed_to_fetch_latest w2"
      by (simp add: main_def w0_def [symmetric] wl_def [symmetric] del: port_scan.simps)
    then have "posted w' = posted w2"
      using logging_no_post [of w2 ERROR Failed_to_fetch_latest] by (simp add: no_post_def)
    with h p2 latest None show ?thesis by simp
  next
    case (Some n)
    from run scan ps head latest Some obtain rd w3 td w4 rh th hp bp w5 where
      ref: "fetch_block_details reference_url (Some n) w2 = (Inr rd, w3)"
      and tgt: "fetch_block_details rpc_url (Some n) w3 = (Inr td, w4)"
      and prog: "check_block_progression rpc_url timeout w4 = Some (Inr bp, w5)"
      and fin: "w' = report_main n rh th hp bp (list_all snd ps) w5"
      by (auto simp add: main_def w0_def [symmetric] wl_def [symmetric]
          simp del: port_scan.simps split: prod.splits sum.splits option.splits)
    have "posted w' = posted w5"
      using report_main_no_post [of w5 n rh th hp bp "list_all snd ps"] fin
      by (simp add: no_post_def)
    moreover from comparison_posted [OF ref tgt prog] obtain polls where
      "posted w5 = posted w2 @ [Post reference_url (block_details_payload n),
          Post rpc_url (block_details_payload n)] @ polls"
      and "set polls \<subseteq> {Post rpc_url block_number_payload}"
      by blast
    ultimately have "head_at w reference_url (posts w) = Inr (Some n) \<and>
      posted w' =
        posted w @ [Post reference_url block_number_payload,
                    Post reference_url (block_details_payload n),
                    Post rpc_url (block_details_payload n)] @ polls \<and>
      set polls \<subseteq> {Post rpc_url block_number_payload}"
      using h p2 latest Some by simp
    then show ?thesis by blast
  qed
qed

text \<open>
  Claim C9. In every run of an aggregator that returns, the POSTs it sent are, in
  order: one \<open>eth_blockNumber\<close> query to the reference endpoint, whose decoded
  result is \<open>n\<close>; one \<open>eth_getBlockByNumber\<close> query for \<open>n\<close> to the reference
  endpoint and one for the same \<open>n\<close> to the target endpoint; then only the
  \<open>eth_blockNumber\<close> queries of the progression check to the target. So the block
  number of the comparison is fetched once, from the reference, and both
  block-details queries carry it. (A run of \<open>main\<close> whose reference head is Absent
  sends that first query only.)
\<close>

theorem shared_block_number:
  "(perform_checks rpc_url reference_url timeout w = Some (Inr results, w')
      \<longrightarrow> (\<exists>n polls. head_at w reference_url (posts w) = Inr (Some n) \<and>
             posted w' =
               posted w @ [Post reference_url block_number_payload,
                           Post reference_url (block_details_payload n),
                           Post rpc_url (block_details_payload n)] @ polls \<and>
             set polls \<subseteq> {Post rpc_url block_number_payload})) \<and>
   (main rpc_url reference_url timeout w = Some (Inr (), w'')
      \<longrightarrow> (head_at w reference_url (posts w) = Inr None \<and>
           posted w'' = posted w @ [Post reference_url block_number_payload]) \<or>
          (\<exists>n polls. head_at w reference_url (posts w) = Inr (Some n) \<and>
             posted w'' =
               posted w @ [Post reference_url block_number_payload,
                           Post reference_url (block_details_payload n),
                           Post rpc_url (block_details_payload n)] @ polls \<and>
             set polls \<subseteq> {Post rpc_url block_number_payload}))"
  using perform_checks_posted [of rpc_url reference_url timeout w results w']
    main_posted [of rpc_url reference_url timeout w w'']
  by blast

lemma healthy_main:
  "map_option fst (main ''http://node'' default_reference_url default_timeout healthy) =
     Some (Inr ())"
  by (simp add: main_def probe_defs healthy_def world_of_def host_of_node_def
      rpc_defs advancing_net_def head_reply_def block_reply_def int_3e8 int_3e9 hex_1000
      block_hash_check_def check_block_progression_def polling.simps time_time_def time_sleep_def
      advanced_def default_timeout_def)

theorem shared_block_number_witness:
  "(\<exists>results w' polls.
      perform_checks ''http://node'' default_reference_url default_timeout healthy =
        Some (Inr results, w') \<and>
      head_at healthy default_reference_url (posts healthy) = Inr (Some 1000) \<and>
      posted w' =
        posted healthy @ [Post default_reference_url block_number_payload,
                          Post default_reference_url (block_details_payload 1000),
                          Post ''http://node'' (block_details_payload 1000)] @ polls \<and>
      set polls \<subseteq> {Post ''http://node'' block_number_payload}) \<and>
   (\<exists>w'' polls.
      main ''http://node'' default_reference_url default_timeout healthy = Some (Inr (), w'') \<and>
      posted w'' =
        posted healthy @ [Post default_reference_url block_number_payload,
                          Post default_reference_url (block_details_payload 1000),
                          Post ''http://node'' (block_details_payload 1000)] @ polls \<and>
      set polls \<subseteq> {Post ''http://node'' block_number_payload})"
proof -
  have head: "head_at healthy default_reference_url (posts healthy) = Inr (Some 1000)"
    by (simp add: healthy_def observe_defs int_3e8)
  obtain results w' where run:
    "perform_checks ''http://node'' default_reference_url default_timeout healthy =
       Some (Inr results, w')"
    using healthy_run by (auto simp add: map_option_case split: option.splits)
  obtain w'' where run_main:
    "main ''http://node'' default_reference_url default_timeout healthy = Some (Inr (), w'')"
    using healthy_main by (auto simp add: map_option_case split: option.splits)
  note both = shared_block_number [of "''http://node''" default_reference_url default_timeout
      healthy results w' w'']
  from both run head obtain polls where
    "posted w' =
        posted healthy @ [Post default_reference_url block_number_payload,
                          Post default_reference_url (block_details_payload 1000),
                          Post ''http://node'' (block_details_payload 1000)] @ polls"
    and "set polls \<subseteq> {Post ''http://node'' block_number_payload}"
    by auto
  with run head have first: "\<exists>results w' polls.
      perform_checks ''http://node'' default_reference_url default_timeout healthy =
        Some (Inr results, w') \<and>
      head_at healthy default_reference_url (posts healthy) = Inr (Some 1000) \<and>
      posted w' =
        posted healthy @ [Post default_reference_url block_number_payload,
                          Post default_reference_url (block_details_payload 1000),
                          Post ''http://node'' (block_details_payload 1000)] @ polls \<and>
      set polls \<subseteq> {Post ''http://node'' block_number_payload}"
    by blast
  from both run_main head obtain polls' where
    "posted w'' =
        posted healthy @ [Post default_reference_url block_number_payload,
                          Post default_reference_url (block_details_payload 1000),
                          Post ''http://node'' (block_details_payload 1000)] @ polls'"
    and "set polls' \<subseteq> {Post ''http://node'' block_number_payload}"
    by auto
  with run_main have "\<exists>w'' polls.
      main ''http://node'' default_reference_url default_timeout healthy = Some (Inr (), w'') \<and>
      posted w'' =
        posted healthy @ [Post default_reference_url block_number_payload,
                          Post default_reference_url (block_details_payload 1000),
                          Post ''http://node'' (block_details_payload 1000)] @ polls \<and>
      set polls \<subseteq> {Post ''http://node'' block_number_payload}"
    by blast
  with first show ?thesis by blast
qed


section \<open>The route\<close>

text \<open>
  The port scan returns a list of verdicts in every world: \<open>is_port_open\<close> catches what
  the probe raises.  The first POST of \<open>perform_checks\<close> is therefore always reached, and
  it is the head query to the reference node; what \<open>requests.post\<close> raises there is
  caught nowhere.
\<close>

lemma is_port_open_returns: "\<exists>b. fst (is_port_open host port w) = Inr b"
  by (auto simp add: probe_defs split: sum.splits option.splits prod.splits)

lemma port_scan_returns: "\<exists>ps. fst (port_scan rpc_url ports w) = Inr ps"
proof (induction ports arbitrary: w)
  case Nil
  show ?case by simp
next
  case (Cons port ports)
  obtain b w1 where one: "is_port_open rpc_url port w = (Inr b, w1)"
    using is_port_open_returns [of rpc_url port w]
    by (cases "is_port_open rpc_url port w") auto
  obtain ps w2 where rest: "port_scan rpc_url ports w1 = (Inr ps, w2)"
    using Cons.IH [of w1] by (cases "port_scan rpc_url ports w1") auto
  show ?case by (simp add: one rest)
qed

lemma perform_checks_transport_failure:
  assumes "net w (posts w) reference_url block_number_payload = Raises e"
  shows "\<exists>w'. perform_checks rpc_url reference_url timeout w = Some (Inl e, w')"
proof -
  obtain ps w1 where scan:
    "port_scan rpc_url [30303, 9003, 30304, 8369, 18369] w = (Inr ps, w1)"
    using port_scan_returns [of rpc_url "[30303, 9003, 30304, 8369, 18369]" w]
    by (cases "port_scan rpc_url [30303, 9003, 30304, 8369, 18369] w")
      (auto simp del: port_scan.simps)
  have "no_post w w1"
    using scan port_scan_no_post [of w rpc_url "[30303, 9003, 30304, 8369, 18369]"]
    by (simp del: port_scan.simps)
  then have "net w1 (posts w1) reference_url block_number_payload = Raises e"
    using assms by (simp add: no_post_def)
  then obtain w2 where "fetch_latest_block_number reference_url w1 = (Inl e, w2)"
    by (simp add: fetch_latest_block_number_def requests_post_def)
  with scan show ?thesis
    by (simp add: perform_checks_def del: port_scan.simps)
qed

lemma offline_run:
  "map_option fst (perform_checks ''http://node'' default_reference_url default_timeout offline) =
     Some (Inl ConnectionError)"
  by (simp add: perform_checks_def probe_defs offline_def world_of_def host_of_node_def rpc_defs)

text \<open>
  Claim C10, as stated, fails in its second half: a non-empty \<open>rpc_url\<close> is not always
  answered with the check results.  When the reference node refuses the connection,
  \<open>requests.post\<close> raises \<open>ConnectionError\<close> in \<open>fetch_latest_block_number\<close>; neither
  \<open>perform_checks\<close> nor the route catches it, and the route returns no results.
\<close>

theorem api_check_raises:
  "map_option fst (api_check (Some ''http://node'') offline) = Some (Inl ConnectionError)"
  by (simp add: api_check_def perform_checks_def probe_defs offline_def world_of_def
      host_of_node_def rpc_defs)

text \<open>
  Claim C10, amended.  A request to \<open>/api/check\<close> whose \<open>rpc_url\<close> parameter is absent
  or empty is answered with status 400 and the body \<open>{"error": "RPC URL is required"}\<close>,
  and the world is as before: no check ran.  With a non-empty \<open>rpc_url\<close> the route runs
  \<open>perform_checks\<close>: when that returns results, the route answers with them, status 200;
  when that raises, the route raises the same exception in the same world, and it does so
  whenever the head query to the reference node raises in \<open>requests.post\<close>; the route
  fails to return exactly when \<open>perform_checks\<close> does; and what the route answers to a
  non-empty \<open>rpc_url\<close> is never the error body.
\<close>

theorem api_check_route:
  "(rpc_url = None \<or> rpc_url = Some [] \<longrightarrow>
      api_check rpc_url w =
        Some (Inr (400, Error_body [(''error'', ''RPC URL is required'')]), w)) \<and>
   (u \<noteq> [] \<and> perform_checks u default_reference_url default_timeout w = Some (Inr results, w')
      \<longrightarrow> api_check (Some u) w = Some (Inr (200, Results_body results), w')) \<and>
   (u \<noteq> [] \<and> perform_checks u default_reference_url default_timeout w = Some (Inl e, w')
      \<longrightarrow> api_check (Some u) w = Some (Inl e, w')) \<and>
   (u \<noteq> [] \<and> net w (posts w) default_reference_url block_number_payload = Raises e
      \<longrightarrow> (\<exists>w'. api_check (Some u) w = Some (Inl e, w'))) \<and>
   (u \<noteq> [] \<longrightarrow>
      (api_check (Some u) w = None) =
        (perform_checks u default_reference_url default_timeout w = None)) \<and>
   (u \<noteq> [] \<and> api_check (Some u) w = Some (Inr (status, b), w')
      \<longrightarrow> status = 200 \<and>
          (\<exists>results. b = Results_body results \<and>
             perform_checks u default_reference_url default_timeout w = Some (Inr results, w')))"
proof (intro conjI impI)
  assume "u \<noteq> [] \<and> net w (posts w) default_reference_url block_number_payload = Raises e"
  then obtain w' where
    "perform_checks u default_reference_url default_timeout w = Some (Inl e, w')"
    and "u \<noteq> []"
    using perform_checks_transport_failure [of w default_reference_url e u default_timeout]
    by blast
  then have "api_check (Some u) w = Some (Inl e, w')"
    by (simp add: api_check_def)
  then show "\<exists>w'. api_check (Some u) w = Some (Inl e, w')" by blast
qed (auto simp add: api_check_def split: option.splits sum.splits)

theorem api_check_route_witness:
  "api_check None healthy =
     Some (Inr (400, Error_body [(''error'', ''RPC URL is required'')]), healthy) \<and>
   api_check (Some []) healthy =
     Some (Inr (400, Error_body [(''error'', ''RPC URL is required'')]), healthy) \<and>
   map_option fst (api_check (Some ''http://node'') healthy) =
     Some (Inr (200, Results_body
       \<lparr>port_status = [(30303, True), (9003, True), (30304, True), (8369, True), (18369, True)],
        block_hash_check_result = True, block_progression = True\<rparr>)) \<and>
   net offline (posts offline) default_reference_url block_number_payload =
     Raises ConnectionError \<and>
   (\<exists>w'. api_check (Some ''http://node'') offline = Some (Inl ConnectionError, w')) \<and>
   (\<exists>w'. perform_checks ''http://node'' default_reference_url default_timeout offline =
      Some (Inl ConnectionError, w') \<and>
      api_check (Some ''http://node'') offline = Some (Inl ConnectionError, w'))"
proof -
  obtain w' where run:
    "perform_checks ''http://node'' default_reference_url default_timeout healthy =
       Some (Inr \<lparr>port_status =
                    [(30303, True), (9003, True), (30304, True), (8369, True), (18369, True)],
                  block_hash_check_result = True, block_progression = True\<rparr>, w')"
    using healthy_run by (auto simp add: map_option_case split: option.splits)
  obtain w'' where fail:
    "perform_checks ''http://node'' default_reference_url default_timeout offline =
       Some (Inl ConnectionError, w'')"
    using offline_run by (auto simp add: map_option_case split: option.splits)
  have url: "''http://node'' \<noteq> []"
    by simp
  have refused: "net offline (posts offline) default_reference_url block_number_payload =
      Raises ConnectionError"
    by (simp add: offline_def world_of_def)
  note good = api_check_route [of None healthy "''http://node''" _ w' ConnectionError 200
      "Error_body []"]
  note empty = api_check_route [of "Some []" healthy "''http://node''" _ w' ConnectionError 200
      "Error_body []"]
  note bad = api_check_route [of None offline "''http://node''" _ w'' ConnectionError 200
      "Error_body []"]
  from good run url have a: "api_check None healthy =
      Some (Inr (400, Error_body [(''error'', ''RPC URL is required'')]), healthy)"
    and c: "map_option fst (api_check (Some ''http://node'') healthy) =
      Some (Inr (200, Results_body
       \<lparr>port_status = [(30303, True), (9003, True), (30304, True), (8369, True), (18369, True)],
        block_hash_check_result = True, block_progression = True\<rparr>))"
    by simp_all
  from empty have b: "api_check (Some []) healthy =
      Some (Inr (400, Error_body [(''error'', ''RPC URL is required'')]), healthy)"
    by simp
  from bad refused url have d:
    "\<exists>w'. api_check (Some ''http://node'') offline = Some (Inl ConnectionError, w')"
    by blast
  from bad fail url have "api_check (Some ''http://node'') offline =
      Some (Inl ConnectionError, w'')"
    by blast
  with fail have e: "\<exists>w'.
      perform_checks ''http://node'' default_reference_url default_timeout offline =
        Some (Inl ConnectionError, w') \<and>
      api_check (Some ''http://node'') offline = Some (Inl ConnectionError, w')"
    by blast
  from a b c refused d e show ?thesis by blast
qed

end
